theory Spec2Isabelle
  imports Main "HOL-Library.Word"
begin

section \<open>JavaScript values as the handler sees them\<close>

text \<open>
  A JavaScript string is a sequence of 16-bit code units; \<open>.length\<close>, \<open>trim\<close> and a
  regular expression without the \<open>u\<close> flag all work on code units. \<open>js\<close> turns an
  ASCII literal of the source into that representation.
\<close>

type_synonym jsstring = "16 word list"

definition js :: "string \<Rightarrow> jsstring" where
  "js s = map of_char s"

text \<open>
  \<open>req.body\<close> is what \<open>express.json()\<close> parsed, so every field is a JSON value or is
  missing (\<open>undefined\<close>). \<open>JNum neg m\<close> is the integer of magnitude \<open>m\<close>, negative
  when \<open>neg\<close> holds: the magnitude has 53 bits, so these are exactly the integers up to
  \<open>2^53 - 1\<close> that a JavaScript number holds without rounding, with both zeros. JSON
  numbers with a fraction, an exponent or a larger magnitude are outside this model. An
  object is its list of own properties.
\<close>

datatype jsval =
    JUndefined
  | JNull
  | JBool bool
  | JNum bool "53 word"
  | JStr jsstring
  | JArr "jsval list"
  | JObj "(jsstring \<times> jsval) list"

text \<open>
  What a \<open>throw\<close> carries: the \<open>TypeError\<close> the runtime raises itself, or the
  \<open>Error\<close> an external call (the mail provider's client, \<open>fetch\<close>) rejects with,
  with its \<open>message\<close>.
\<close>

datatype exn = TypeError | Rejected jsstring

text \<open>\<open>!v\<close> is \<open>\<not> truthy v\<close>; \<open>a || b\<close> is \<open>js_or a b\<close>.\<close>

fun truthy :: "jsval \<Rightarrow> bool" where
  "truthy JUndefined = False"
| "truthy JNull = False"
| "truthy (JBool b) = b"
| "truthy (JNum neg m) = (m \<noteq> 0)"
| "truthy (JStr s) = (s \<noteq> [])"
| "truthy (JArr xs) = True"
| "truthy (JObj kvs) = True"

definition js_or :: "jsval \<Rightarrow> jsval \<Rightarrow> jsval" where
  "js_or a b = (if truthy a then a else b)"

subsection \<open>Conversion to a string\<close>

fun digits :: "nat \<Rightarrow> jsstring" where
  "digits n = (if n < 10 then [of_nat (48 + n)]
               else digits (n div 10) @ [of_nat (48 + n mod 10)])"

text \<open>
  \<open>Number::toString\<close> on these integers: the decimal digits, with a minus sign for a
  negative number other than \<open>-0\<close>. (The exponent form starts at \<open>10^21\<close>, beyond
  53 bits.)
\<close>

definition NumberToString :: "bool \<Rightarrow> 53 word \<Rightarrow> jsstring" where
  "NumberToString neg m =
     (if neg \<and> m \<noteq> 0 then js ''-'' @ digits (unat m) else digits (unat m))"

text \<open>
  \<open>ToString\<close> is what a template literal \<open>${v}\<close> and \<open>RegExp.prototype.test\<close> apply to
  their argument. An array is joined with commas, \<open>null\<close> and \<open>undefined\<close> elements
  giving the empty string. A plain object gives \<open>[object Object]\<close> through the inherited
  \<open>toString\<close>; an own property named \<open>toString\<close> hides the inherited method, and since a
  parsed JSON value is never callable, the conversion then ends in a \<open>TypeError\<close>
  (\<open>valueOf\<close> returns the object itself).
\<close>

fun ToString :: "jsval \<Rightarrow> exn + jsstring"
  and join :: "jsval list \<Rightarrow> exn + jsstring" where
  "ToString JUndefined = Inr (js ''undefined'')"
| "ToString JNull = Inr (js ''null'')"
| "ToString (JBool b) = Inr (if b then js ''true'' else js ''false'')"
| "ToString (JNum neg m) = Inr (NumberToString neg m)"
| "ToString (JStr s) = Inr s"
| "ToString (JArr xs) = join xs"
| "ToString (JObj kvs) =
     (if js ''toString'' \<in> set (map fst kvs) then Inl TypeError
      else Inr (js ''[object Object]''))"
| "join [] = Inr []"
| "join (x # xs) =
     (case (if x = JUndefined \<or> x = JNull then Inr [] else ToString x) of
        Inl e \<Rightarrow> Inl e
      | Inr a \<Rightarrow>
          (if xs = [] then Inr a
           else case join xs of Inl e \<Rightarrow> Inl e | Inr b \<Rightarrow> Inr (a @ js '','' @ b)))"

subsection \<open>String methods and the two regular expressions\<close>

text \<open>
  White space and line terminators of ECMAScript: what \<open>trim\<close> strips and what \<open>\s\<close>
  matches.
\<close>

definition is_space :: "16 word \<Rightarrow> bool" where
  "is_space c \<longleftrightarrow>
     c \<in> {0x9, 0xA, 0xB, 0xC, 0xD, 0x20, 0xA0, 0x1680, 0x2028, 0x2029,
          0x202F, 0x205F, 0x3000, 0xFEFF}
     \<or> (0x2000 \<le> c \<and> c \<le> 0x200A)"

definition is_digit :: "16 word \<Rightarrow> bool" where
  "is_digit c \<longleftrightarrow> 0x30 \<le> c \<and> c \<le> 0x39"

definition trim :: "jsstring \<Rightarrow> jsstring" where
  "trim s = rev (dropWhile is_space (rev (dropWhile is_space s)))"

text \<open>
  \<open>v.trim()\<close> and \<open>v.replace(/\D/g, "")\<close>: only a string has these methods. On any
  other JSON value the property is \<open>undefined\<close> or not callable, and the call throws.
\<close>

definition method_trim :: "jsval \<Rightarrow> exn + jsstring" where
  "method_trim v = (case v of JStr s \<Rightarrow> Inr (trim s) | _ \<Rightarrow> Inl TypeError)"

definition method_replace_nondigits :: "jsval \<Rightarrow> exn + jsstring" where
  "method_replace_nondigits v =
     (case v of JStr s \<Rightarrow> Inr (filter is_digit s) | _ \<Rightarrow> Inl TypeError)"

text \<open>
  The email pattern \<open>/^[^\s@]+@[^\s@]+\.[^\s@]+$/\<close> is a sequence of character
  classes, each taken once or one or more times, anchored at both ends. \<open>matches\<close>
  tries every way to split the input, as the backtracking matcher does.
\<close>

datatype item = One "16 word \<Rightarrow> bool" | Many "16 word \<Rightarrow> bool"

fun matches :: "item list \<Rightarrow> jsstring \<Rightarrow> bool" where
  "matches [] s = (s = [])"
| "matches (One p # r) [] = False"
| "matches (One p # r) (c # s) = (p c \<and> matches r s)"
| "matches (Many p # r) [] = False"
| "matches (Many p # r) (c # s) = (p c \<and> (matches (Many p # r) s \<or> matches r s))"

definition not_space_at :: "16 word \<Rightarrow> bool" where
  "not_space_at c \<longleftrightarrow> \<not> is_space c \<and> c \<noteq> 0x40"

definition email_re :: "item list" where
  "email_re = [Many not_space_at, One (\<lambda>c. c = 0x40), Many not_space_at,
               One (\<lambda>c. c = 0x2E), Many not_space_at]"

definition regex_test :: "item list \<Rightarrow> jsval \<Rightarrow> exn + bool" where
  "regex_test re v = (case ToString v of Inl e \<Rightarrow> Inl e | Inr s \<Rightarrow> Inr (matches re s))"

section \<open>The validation block of \<open>POST /api/quote\<close>\<close>

text \<open>The own properties of the parsed body; destructuring a missing one gives \<open>undefined\<close>.\<close>

type_synonym body = "jsstring \<rightharpoonup> jsval"

definition body_prop :: "body \<Rightarrow> string \<Rightarrow> jsval" where
  "body_prop b k = (case b (js k) of None \<Rightarrow> JUndefined | Some v \<Rightarrow> v)"

text \<open>The four conditions, each \<open>True\<close> when its message is pushed.\<close>

definition name_check :: "jsval \<Rightarrow> exn + bool" where
  "name_check name =
     (if \<not> truthy name then Inr True
      else case method_trim name of Inl e \<Rightarrow> Inl e | Inr t \<Rightarrow> Inr (length t < 2))"

definition phone_check :: "jsval \<Rightarrow> exn + bool" where
  "phone_check phone =
     (if \<not> truthy phone then Inr True
      else case method_replace_nondigits phone of
             Inl e \<Rightarrow> Inl e | Inr d \<Rightarrow> Inr (length d < 10))"

definition email_check :: "jsval \<Rightarrow> exn + bool" where
  "email_check email =
     (if \<not> truthy email then Inr True
      else case regex_test email_re email of Inl e \<Rightarrow> Inl e | Inr m \<Rightarrow> Inr (\<not> m))"

definition service_check :: "jsval \<Rightarrow> bool" where
  "service_check service = (\<not> truthy service)"

definition push_if :: "bool \<Rightarrow> string \<Rightarrow> jsstring list \<Rightarrow> jsstring list" where
  "push_if c m errors = (if c then errors @ [js m] else errors)"

definition validate :: "body \<Rightarrow> exn + jsstring list" where
  "validate b =
     (case name_check (body_prop b ''name'') of Inl e \<Rightarrow> Inl e | Inr c1 \<Rightarrow>
       (case phone_check (body_prop b ''phone'') of Inl e \<Rightarrow> Inl e | Inr c2 \<Rightarrow>
         (case email_check (body_prop b ''email'') of Inl e \<Rightarrow> Inl e | Inr c3 \<Rightarrow>
            Inr (push_if (service_check (body_prop b ''service'')) ''service is required''
                (push_if c3 ''valid email is required''
                (push_if c2 ''valid phone is required''
                (push_if c1 ''name is required'' [])))))))"

section \<open>Configuration and the external collaborators\<close>

text \<open>\<open>process.env\<close>: each variable is a string or is not set.\<close>

record env =
  RESEND_FROM_EMAIL :: "jsstring option"
  NOTIFICATION_EMAIL :: "jsstring option"
  CRM_WEBHOOK_URL :: "jsstring option"
  CRM_API_KEY :: "jsstring option"
  CRM_FORM_ID :: "jsstring option"

definition env_val :: "jsstring option \<Rightarrow> jsval" where
  "env_val v = (case v of None \<Rightarrow> JUndefined | Some s \<Rightarrow> JStr s)"

text \<open>The argument of \<open>resend.emails.send\<close>.\<close>

record email_msg =
  msg_from :: jsval
  msg_to :: "jsval list"
  subject :: jsstring
  html :: jsstring

text \<open>
  The arguments of \<open>fetch\<close>. \<open>payload\<close> is the value handed to \<open>JSON.stringify\<close>
  for the request body; serialising a parsed JSON value never throws.
\<close>

record http_request =
  url :: jsval
  http_method :: jsstring
  headers :: "(jsstring \<times> jsval) list"
  payload :: jsval

record http_response =
  ok :: bool
  status :: nat
  body_text :: "exn + jsstring"

text \<open>
  Everything the handler does not decide itself: the environment, the clock
  (\<open>new Date().toISOString()\<close>), and what the two network calls answer, either a value
  or a rejection.
\<close>

record world =
  process_env :: env
  now :: jsstring
  resend_send :: "email_msg \<Rightarrow> exn + jsval"
  fetch :: "http_request \<Rightarrow> exn + http_response"

text \<open>
  The effects of one request, in order: entering one of the three senders, and each network
  call with its arguments.
\<close>

datatype sender = Notification | CRM | Confirmation

datatype event = Invoked sender | EmailsSend email_msg | Fetch http_request

text \<open>
  What a sender returns: \<open>{success: true, id}\<close>, \<open>{success: false, error}\<close> or
  \<open>{success: response.ok, status}\<close>. The \<open>error\<close> is \<open>err.message\<close> of what was
  caught, or a fixed text.
\<close>

datatype error_text = MessageOf exn | Text jsstring

datatype sender_result = Sent jsval | Failed error_text | Responded bool nat

fun success :: "sender_result \<Rightarrow> bool" where
  "success (Sent i) = True"
| "success (Failed e) = False"
| "success (Responded k s) = k"

subsection \<open>Template literals and property reads\<close>

text \<open>
  A template literal is its literal pieces and its substitutions, converted with
  \<open>ToString\<close> from left to right; the first conversion that throws ends it.
\<close>

datatype part = Lit jsstring | Sub jsval

fun render :: "part list \<Rightarrow> exn + jsstring" where
  "render [] = Inr []"
| "render (Lit s # ps) = (case render ps of Inl e \<Rightarrow> Inl e | Inr r \<Rightarrow> Inr (s @ r))"
| "render (Sub v # ps) =
     (case ToString v of Inl e \<Rightarrow> Inl e
      | Inr s \<Rightarrow> (case render ps of Inl e \<Rightarrow> Inl e | Inr r \<Rightarrow> Inr (s @ r)))"

text \<open>
  \<open>v.k\<close> for a property name that no prototype defines (\<open>data\<close>, \<open>id\<close>): reading from
  \<open>undefined\<close> or \<open>null\<close> throws, an object gives its own property, anything else
  \<open>undefined\<close>. \<open>result_id\<close> is \<open>result.data?.id\<close>.
\<close>

definition get :: "jsval \<Rightarrow> string \<Rightarrow> exn + jsval" where
  "get v k =
     (case v of
        JUndefined \<Rightarrow> Inl TypeError
      | JNull \<Rightarrow> Inl TypeError
      | JObj kvs \<Rightarrow> (case map_of (rev kvs) (js k) of None \<Rightarrow> Inr JUndefined | Some x \<Rightarrow> Inr x)
      | _ \<Rightarrow> Inr JUndefined)"

definition result_id :: "jsval \<Rightarrow> exn + jsval" where
  "result_id result =
     (case get result ''data'' of
        Inl e \<Rightarrow> Inl e
      | Inr d \<Rightarrow> (if d = JUndefined \<or> d = JNull then Inr JUndefined else get d ''id''))"

section \<open>The confirmation email to the customer\<close>

definition confirmation_html :: "jsval \<Rightarrow> jsval \<Rightarrow> part list" where
  \<open>confirmation_html name service =
    [Lit (js ''\<newline>''),
     Lit (js ''      <div style="font-family: Arial, sans-serif; max-width: 600px; margin: 0 auto;">\<newline>''),
     Lit (js ''        <div style="background-color: #03662b; padding: 20px; text-align: center;">\<newline>''),
     Lit (js ''          <h1 style="color: #ffffff; margin: 0;">Thank You, ''),
      Sub name,
      Lit (js ''!</h1>\<newline>''),
     Lit (js ''        </div>\<newline>''),
     Lit (js ''        <div style="padding: 24px;">\<newline>''),
     Lit (js ''          <p>We received your request for <strong>''),
      Sub service,
      Lit (js ''</strong> and our team will be in touch within 24 hours with a free estimate.</p>\<newline>''),
     Lit (js ''          <p>If you need immediate help, call us at <a href="tel:6124733196" style="color: #03662b; font-weight: bold;">612-473-3196</a>.</p>\<newline>''),
     Lit (js ''          <p style="margin-top: 24px;">'' @ [0x2014] @ js '' The Hopkins Concrete Team</p>\<newline>''),
     Lit (js ''        </div>\<newline>''),
     Lit (js ''      </div>\<newline>''),
     Lit (js ''    '')]\<close>

definition confirmation_subject :: "part list" where
  "confirmation_subject =
    [Lit (js ''We received your quote request '' @ [0x2014] @ js '' Hopkins Concrete'')]"

definition sendConfirmationEmail ::
  "world \<Rightarrow> jsval \<Rightarrow> jsval \<Rightarrow> jsval \<Rightarrow> sender_result \<times> event list" where
  "sendConfirmationEmail w name email service =
     (let fromEmail = js_or (env_val (RESEND_FROM_EMAIL (process_env w)))
                        (JStr (js ''Hopkins Concrete <noreply@webleadsnow.com>''))
      in case render (confirmation_html name service) of
           Inl err \<Rightarrow> (Failed (MessageOf err), [Invoked Confirmation])
         | Inr h \<Rightarrow>
            (case render confirmation_subject of
               Inl err \<Rightarrow> (Failed (MessageOf err), [Invoked Confirmation])
             | Inr s \<Rightarrow>
                (let msg = \<lparr>msg_from = fromEmail, msg_to = [email], subject = s, html = h\<rparr>
                 in case resend_send w msg of
                      Inl err \<Rightarrow> (Failed (MessageOf err), [Invoked Confirmation, EmailsSend msg])
                    | Inr result \<Rightarrow>
                       (case result_id result of
                          Inl err \<Rightarrow>
                            (Failed (MessageOf err), [Invoked Confirmation, EmailsSend msg])
                        | Inr i \<Rightarrow> (Sent i, [Invoked Confirmation, EmailsSend msg])))))"

section \<open>The notification email to the business\<close>

text \<open>The object the handler passes to the notification sender and to the CRM forwarder.\<close>

record submission =
  name :: jsval
  phone :: jsval
  email :: jsval
  service :: jsval
  address :: jsval
  zipcode :: jsval
  timeline :: jsval
  budget :: jsval
  message :: jsval
  timestamp :: jsval

definition notification_html :: "submission \<Rightarrow> part list" where
  \<open>notification_html data =
    [Lit (js ''\<newline>''),
     Lit (js ''      <div style="font-family: Arial, sans-serif; max-width: 600px; margin: 0 auto;">\<newline>''),
     Lit (js ''        <div style="background-color: #03662b; padding: 20px; text-align: center;">\<newline>''),
     Lit (js ''          <h1 style="color: #ffffff; margin: 0;">New Quote Request</h1>\<newline>''),
     Lit (js ''          <p style="color: #c8e6c9; margin: 5px 0 0;">Hopkins Concrete Contractors</p>\<newline>''),
     Lit (js ''        </div>\<newline>''),
     Lit (js ''\<newline>''),
     Lit (js ''        <div style="padding: 24px; background-color: #f9f9f9;">\<newline>''),
     Lit (js ''          <h2 style="color: #03662b; border-bottom: 2px solid #03662b; padding-bottom: 8px;">Contact Info</h2>\<newline>''),
     Lit (js ''          <table style="width: 100%; border-collapse: collapse;">\<newline>''),
     Lit (js ''            <tr><td style="padding: 8px 0; font-weight: bold; width: 120px;">Name:</td><td>''),
      Sub (name data),
      Lit (js ''</td></tr>\<newline>''),
     Lit (js ''            <tr><td style="padding: 8px 0; font-weight: bold;">Phone:</td><td><a href="tel:''),
      Sub (phone data),
      Lit (js ''">''),
      Sub (phone data),
      Lit (js ''</a></td></tr>\<newline>''),
     Lit (js ''            <tr><td style="padding: 8px 0; font-weight: bold;">Email:</td><td><a href="mailto:''),
      Sub (email data),
      Lit (js ''">''),
      Sub (email data),
      Lit (js ''</a></td></tr>\<newline>''),
     Lit (js ''          </table>\<newline>''),
     Lit (js ''\<newline>''),
     Lit (js ''          <h2 style="color: #03662b; border-bottom: 2px solid #03662b; padding-bottom: 8px; margin-top: 24px;">Project Details</h2>\<newline>''),
     Lit (js ''          <table style="width: 100%; border-collapse: collapse;">\<newline>''),
     Lit (js ''            <tr><td style="padding: 8px 0; font-weight: bold; width: 120px;">Service:</td><td>''),
      Sub (service data),
      Lit (js ''</td></tr>\<newline>''),
     Lit (js ''            <tr><td style="padding: 8px 0; font-weight: bold;">Address:</td><td>''),
      Sub (js_or (address data) (JStr (js ''Not provided''))),
      Lit (js ''</td></tr>\<newline>''),
     Lit (js ''            <tr><td style="padding: 8px 0; font-weight: bold;">Zip Code:</td><td>''),
      Sub (js_or (zipcode data) (JStr (js ''Not provided''))),
      Lit (js ''</td></tr>\<newline>''),
     Lit (js ''            <tr><td style="padding: 8px 0; font-weight: bold;">Timeline:</td><td>''),
      Sub (js_or (timeline data) (JStr (js ''Not specified''))),
      Lit (js ''</td></tr>\<newline>''),
     Lit (js ''            <tr><td style="padding: 8px 0; font-weight: bold;">Budget:</td><td>''),
      Sub (js_or (budget data) (JStr (js ''Not specified''))),
      Lit (js ''</td></tr>\<newline>''),
     Lit (js ''          </table>\<newline>''),
     Lit (js ''\<newline>''),
     Lit (js ''          <h2 style="color: #03662b; border-bottom: 2px solid #03662b; padding-bottom: 8px; margin-top: 24px;">Message</h2>\<newline>''),
     Lit (js ''          <p style="background: #fff; padding: 16px; border-radius: 6px; border: 1px solid #ddd;">''),
      Sub (js_or (message data) (JStr (js ''No message provided''))),
      Lit (js ''</p>\<newline>''),
     Lit (js ''\<newline>''),
     Lit (js ''          <p style="color: #888; font-size: 12px; margin-top: 24px;">Submitted at ''),
      Sub (timestamp data),
      Lit (js ''</p>\<newline>''),
     Lit (js ''        </div>\<newline>''),
     Lit (js ''      </div>\<newline>''),
     Lit (js ''    '')]\<close>

definition notification_subject :: "submission \<Rightarrow> part list" where
  "notification_subject data =
    [Lit ([0xD83C, 0xDFD7] @ [0xFE0F] @ js '' New Quote Request '' @ [0x2014] @ js '' ''),
      Sub (service data),
      Lit (js '' '' @ [0x2014] @ js '' ''),
      Sub (name data)]"

definition sendNotificationEmail :: "world \<Rightarrow> submission \<Rightarrow> sender_result \<times> event list" where
  "sendNotificationEmail w data =
     (let fromEmail = js_or (env_val (RESEND_FROM_EMAIL (process_env w)))
                        (JStr (js ''Hopkins Concrete <noreply@webleadsnow.com>''));
          toEmail = js_or (env_val (NOTIFICATION_EMAIL (process_env w)))
                      (JStr (js ''info@hopkinsconcretecontractors.com''))
      in case render (notification_html data) of
           Inl err \<Rightarrow> (Failed (MessageOf err), [Invoked Notification])
         | Inr h \<Rightarrow>
            (case render (notification_subject data) of
               Inl err \<Rightarrow> (Failed (MessageOf err), [Invoked Notification])
             | Inr s \<Rightarrow>
                (let msg = \<lparr>msg_from = fromEmail, msg_to = [toEmail], subject = s, html = h\<rparr>
                 in case resend_send w msg of
                      Inl err \<Rightarrow> (Failed (MessageOf err), [Invoked Notification, EmailsSend msg])
                    | Inr result \<Rightarrow>
                       (case result_id result of
                          Inl err \<Rightarrow>
                            (Failed (MessageOf err), [Invoked Notification, EmailsSend msg])
                        | Inr i \<Rightarrow> (Sent i, [Invoked Notification, EmailsSend msg])))))"

section \<open>The CRM forwarder\<close>

definition crm_payload :: "env \<Rightarrow> submission \<Rightarrow> jsval" where
  "crm_payload e data = JObj
     [(js ''form_id'', js_or (env_val (CRM_FORM_ID e)) (JStr (js ''hopkins-concrete-quote''))),
      (js ''source'', JStr (js ''website'')),
      (js ''name'', name data),
      (js ''email'', email data),
      (js ''phone'', phone data),
      (js ''zip_code'', js_or (zipcode data) (JStr (js ''''))),
      (js ''service'', service data),
      (js ''address'', js_or (address data) (JStr (js ''''))),
      (js ''timeline'', js_or (timeline data) (JStr (js ''''))),
      (js ''budget'', js_or (budget data) (JStr (js ''''))),
      (js ''message'', js_or (message data) (JStr (js ''''))),
      (js ''submitted_at'', timestamp data),
      (js ''source_url'', JStr (js ''https://hopkinsconcretecontractors.com/contact-2/''))]"

definition crm_headers :: "env \<Rightarrow> (jsstring \<times> jsval) list" where
  "crm_headers e =
     (let headers = [(js ''Content-Type'', JStr (js ''application/json''))]
      in if truthy (env_val (CRM_API_KEY e))
         then headers @ [(js ''X-API-Key'', env_val (CRM_API_KEY e))]
         else headers)"

definition pushToCRM :: "world \<Rightarrow> submission \<Rightarrow> sender_result \<times> event list" where
  "pushToCRM w data =
     (let webhookUrl = env_val (CRM_WEBHOOK_URL (process_env w))
      in if \<not> truthy webhookUrl
         then (Failed (Text (js ''CRM_WEBHOOK_URL not configured'')), [Invoked CRM])
         else
          (let req = \<lparr>url = webhookUrl, http_method = js ''POST'',
                       headers = crm_headers (process_env w),
                       payload = crm_payload (process_env w) data\<rparr>
           in case fetch w req of
                Inl err \<Rightarrow> (Failed (MessageOf err), [Invoked CRM, Fetch req])
              | Inr response \<Rightarrow>
                 (case body_text response of
                    Inl err \<Rightarrow> (Failed (MessageOf err), [Invoked CRM, Fetch req])
                  | Inr responseText \<Rightarrow>
                     (Responded (ok response) (status response), [Invoked CRM, Fetch req]))))"

section \<open>The handler of \<open>POST /api/quote\<close>\<close>

record response =
  code :: nat
  json :: jsval

definition submission_of :: "body \<Rightarrow> jsstring \<Rightarrow> submission" where
  "submission_of b ts =
     \<lparr>name = body_prop b ''name'', phone = body_prop b ''phone'',
      email = body_prop b ''email'', service = body_prop b ''service'',
      address = body_prop b ''address'', zipcode = body_prop b ''zipcode'',
      timeline = body_prop b ''timeline'', budget = body_prop b ''budget'',
      message = body_prop b ''message'', timestamp = JStr ts\<rparr>"

text \<open>The one-line summary given to \<open>console.log\<close> after the three sends.\<close>

definition log_line :: "submission \<Rightarrow> part list" where
  "log_line data =
    [Lit (js ''[''),
      Sub (timestamp data),
      Lit (js ''] New quote request from ''),
      Sub (name data),
      Lit (js '' (''),
      Sub (email data),
      Lit (js '') '' @ [0x2014] @ js '' service: ''),
      Sub (service data)]"

definition server_error :: response where
  "server_error = \<lparr>code = 500, json = JObj
     [(js ''success'', JBool False),
      (js ''message'',
       JStr (js ''Something went wrong. Please try again or call us directly.''))]\<rparr>"

definition quote :: "world \<Rightarrow> body \<Rightarrow> response \<times> event list" where
  "quote w b =
     (case validate b of
        Inl err \<Rightarrow> (server_error, [])
      | Inr errors \<Rightarrow>
         (if length errors > 0
          then (\<lparr>code = 400, json = JObj
                  [(js ''success'', JBool False), (js ''errors'', JArr (map JStr errors))]\<rparr>, [])
          else
           (let data = submission_of b (now w);
                (emailResult, t1) = sendNotificationEmail w data;
                (crmResult, t2) = pushToCRM w data;
                (confirmResult, t3) =
                  sendConfirmationEmail w (name data) (email data) (service data)
            in case render (log_line data) of
                 Inl err \<Rightarrow> (server_error, t1 @ t2 @ t3)
               | Inr line \<Rightarrow>
                  (\<lparr>code = 200, json = JObj
                     [(js ''success'', JBool True),
                      (js ''message'', JStr (js ''Quote request submitted successfully'')),
                      (js ''details'', JObj
                         [(js ''email_sent'', JBool (success emailResult)),
                          (js ''crm_pushed'', JBool (success crmResult)),
                          (js ''confirmation_sent'', JBool (success confirmResult))])]\<rparr>,
                   t1 @ t2 @ t3))))"

section \<open>Notions used to state the properties\<close>

text \<open>
  The email rule in the words of the specification: one or more characters that are neither
  white space nor \<open>@\<close>, then \<open>@\<close>, then one or more such characters, then a dot, then
  one or more such characters.
\<close>

definition spec_email_pattern :: "jsstring \<Rightarrow> bool" where
  "spec_email_pattern s \<longleftrightarrow>
     (\<exists>x y z. s = x @ js ''@'' @ y @ js ''.'' @ z \<and> x \<noteq> [] \<and> y \<noteq> [] \<and> z \<noteq> []
        \<and> (\<forall>c \<in> set (x @ y @ z). \<not> is_space c \<and> c \<noteq> 0x40))"

text \<open>A value that \<open>ToString\<close> converts without throwing.\<close>

definition stringifiable :: "jsval \<Rightarrow> bool" where
  "stringifiable v = (case ToString v of Inl e \<Rightarrow> False | Inr s \<Rightarrow> True)"

text \<open>A value on which \<open>!v || v.method()\<close> does not throw: falsy, or a string.\<close>

definition falsy_or_string :: "jsval \<Rightarrow> bool" where
  "falsy_or_string v = (case v of JStr s \<Rightarrow> True | _ \<Rightarrow> \<not> truthy v)"

fun is_invocation :: "event \<Rightarrow> bool" where
  "is_invocation (Invoked s) = True"
| "is_invocation (EmailsSend m) = False"
| "is_invocation (Fetch r) = False"

fun is_fetch :: "event \<Rightarrow> bool" where
  "is_fetch (Invoked s) = False"
| "is_fetch (EmailsSend m) = False"
| "is_fetch (Fetch r) = True"


text \<open>The body of a \<open>200\<close> answer, given the three sender results.\<close>

definition accepted :: "sender_result \<Rightarrow> sender_result \<Rightarrow> sender_result \<Rightarrow> response" where
  "accepted emailResult crmResult confirmResult =
     \<lparr>code = 200, json = JObj
        [(js ''success'', JBool True),
         (js ''message'', JStr (js ''Quote request submitted successfully'')),
         (js ''details'', JObj
            [(js ''email_sent'', JBool (success emailResult)),
             (js ''crm_pushed'', JBool (success crmResult)),
             (js ''confirmation_sent'', JBool (success confirmResult))])]\<rparr>"

subsection \<open>The rows of the optional fields\<close>





subsection \<open>When the validation block runs to its end\<close>


text \<open>
  The inputs on which none of the three method calls of the block throws: name and phone are
  falsy or strings, and email is falsy or converts to a string.
\<close>

definition validation_completes :: "body \<Rightarrow> bool" where
  "validation_completes b \<longleftrightarrow>
     falsy_or_string (body_prop b ''name'') \<and> falsy_or_string (body_prop b ''phone'') \<and>
     (\<not> truthy (body_prop b ''email'') \<or> stringifiable (body_prop b ''email''))"

subsection \<open>Concrete requests and worlds\<close>

text \<open>The end-to-end example of the specification: the four required fields, nothing else.\<close>

definition example_body :: body where
  "example_body =
     [js ''name'' \<mapsto> JStr (js ''Jane Doe''), js ''phone'' \<mapsto> JStr (js ''6124733196''),
      js ''email'' \<mapsto> JStr (js ''jane@example.com''), js ''service'' \<mapsto> JStr (js ''Driveway'')]"

text \<open>The same request with \<open>"service": {"toString": null}\<close>.\<close>

definition object_service_body :: body where
  "object_service_body = example_body(js ''service'' \<mapsto> JObj [(js ''toString'', JNull)])"


definition number_phone_body :: body where
  "number_phone_body = example_body(js ''phone'' \<mapsto> JNum False 6124733196)"


text \<open>The example request with the phone \<open>"555-1234"\<close>, and with the email \<open>"a@b"\<close>.\<close>

definition short_phone_body :: body where
  "short_phone_body = example_body(js ''phone'' \<mapsto> JStr (js ''555-1234''))"

definition bad_email_body :: body where
  "bad_email_body = example_body(js ''email'' \<mapsto> JStr (js ''a@b''))"

text \<open>The same request with \<open>"service": ["Patio", {"toString": 1}]\<close>.\<close>

definition object_in_array_body :: body where
  "object_in_array_body =
     example_body(js ''service'' \<mapsto> JArr [JStr (js ''Patio''), JObj [(js ''toString'', JNum False 1)]])"

text \<open>A request with \<open>"name": 123\<close> and no phone.\<close>

definition number_name_no_phone_body :: body where
  "number_name_no_phone_body =
     [js ''name'' \<mapsto> JNum False 123, js ''email'' \<mapsto> JStr (js ''jane@example.com''),
      js ''service'' \<mapsto> JStr (js ''Driveway'')]"

text \<open>A request with \<open>"phone": 6124733196\<close> and no email.\<close>

definition number_phone_no_email_body :: body where
  "number_phone_no_email_body =
     [js ''name'' \<mapsto> JStr (js ''Jane Doe''), js ''phone'' \<mapsto> JNum False 6124733196,
      js ''service'' \<mapsto> JStr (js ''Driveway'')]"

text \<open>The example request with \<open>"email": {"toString": "a@b.com"}\<close>.\<close>

definition object_email_body :: body where
  "object_email_body =
     example_body(js ''email'' \<mapsto> JObj [(js ''toString'', JStr (js ''a@b.com''))])"

text \<open>A world where the CRM is configured and every call succeeds.\<close>

definition world_up :: world where
  "world_up =
     \<lparr>process_env =
        \<lparr>RESEND_FROM_EMAIL = None, NOTIFICATION_EMAIL = None,
         CRM_WEBHOOK_URL = Some (js ''https://crm.example/hook''),
         CRM_API_KEY = Some (js ''secret''), CRM_FORM_ID = None\<rparr>,
      now = js ''2024-05-01T12:00:00.000Z'',
      resend_send = (\<lambda>m. Inr (JObj [(js ''data'', JObj [(js ''id'', JStr (js ''m1''))])])),
      fetch = (\<lambda>r. Inr \<lparr>ok = True, status = 200, body_text = Inr (js ''ok'')\<rparr>)\<rparr>"

text \<open>A world where the mail provider rejects every send and no CRM is configured.\<close>

definition world_down :: world where
  "world_down =
     \<lparr>process_env =
        \<lparr>RESEND_FROM_EMAIL = None, NOTIFICATION_EMAIL = None, CRM_WEBHOOK_URL = None,
         CRM_API_KEY = None, CRM_FORM_ID = None\<rparr>,
      now = js ''2024-05-01T12:00:00.000Z'',
      resend_send = (\<lambda>m. Inl (Rejected (js ''provider down''))),
      fetch = (\<lambda>r. Inl (Rejected (js ''fetch failed'')))\<rparr>"

text \<open>A world where the mail provider works and no CRM is configured.\<close>

definition world_no_crm :: world where
  "world_no_crm = world_up\<lparr>process_env := (process_env world_up)\<lparr>CRM_WEBHOOK_URL := None\<rparr>\<rparr>"

section \<open>The email pattern\<close>

lemma js_at: "js ''@'' = [0x40]"
  by (simp add: js_def)

lemma js_dot: "js ''.'' = [0x2E]"
  by (simp add: js_def)

lemma matches_One:
  "matches (One p # r) s \<longleftrightarrow> (\<exists>c t. s = c # t \<and> p c \<and> matches r t)"
  by (cases s) auto

lemma matches_Many:
  "matches (Many p # r) s \<longleftrightarrow>
     (\<exists>x t. s = x @ t \<and> x \<noteq> [] \<and> (\<forall>c \<in> set x. p c) \<and> matches r t)"
proof (induction s)
  case Nil
  show ?case by simp
next
  case (Cons c s)
  show ?case
  proof
    assume "matches (Many p # r) (c # s)"
    then have pc: "p c" and rest: "matches (Many p # r) s \<or> matches r s" by auto
    from rest show "\<exists>x t. c # s = x @ t \<and> x \<noteq> [] \<and> (\<forall>c \<in> set x. p c) \<and> matches r t"
    proof
      assume "matches (Many p # r) s"
      with Cons.IH obtain x t where "s = x @ t" "\<forall>c \<in> set x. p c" "matches r t" by auto
      with pc have "c # s = (c # x) @ t \<and> c # x \<noteq> [] \<and> (\<forall>d \<in> set (c # x). p d) \<and> matches r t"
        by simp
      then show ?thesis by blast
    next
      assume "matches r s"
      with pc have "c # s = [c] @ s \<and> [c] \<noteq> [] \<and> (\<forall>d \<in> set [c]. p d) \<and> matches r s" by simp
      then show ?thesis by blast
    qed
  next
    assume "\<exists>x t. c # s = x @ t \<and> x \<noteq> [] \<and> (\<forall>c \<in> set x. p c) \<and> matches r t"
    then obtain x t where eq: "c # s = x @ t" and ne: "x \<noteq> []"
      and all: "\<forall>c \<in> set x. p c" and m: "matches r t" by blast
    from eq ne obtain x' where x: "x = c # x'" and s: "s = x' @ t"
      by (cases x) auto
    from all x have pc: "p c" and all': "\<forall>c \<in> set x'. p c" by auto
    show "matches (Many p # r) (c # s)"
    proof (cases "x' = []")
      case True
      with s m pc show ?thesis by simp
    next
      case False
      with s all' m have "matches (Many p # r) s" using Cons.IH by blast
      with pc show ?thesis by simp
    qed
  qed
qed

lemma matches_Many_end:
  "matches [Many p] s \<longleftrightarrow> s \<noteq> [] \<and> (\<forall>c \<in> set s. p c)"
  by (auto simp: matches_Many)

lemma email_re_pattern: "matches email_re s \<longleftrightarrow> spec_email_pattern s"
  unfolding email_re_def spec_email_pattern_def js_at js_dot
  apply (simp only: matches_Many matches_One matches_Many_end not_space_at_def)
  apply (rule iffI)
   apply (elim exE conjE)
   apply (simp; blast)
  apply (elim exE conjE)
  apply (simp; blast)
  done

text \<open>Evaluation of the matcher on a concrete string, one branch at a time.\<close>

lemma matches_eval:
  "matches (One p # r) (c # s) = (if p c then matches r s else False)"
  "matches (Many p # r) (c # s) =
     (if p c then (if matches (Many p # r) s then True else matches r s) else False)"
  by auto

section \<open>Facts about the validation block\<close>

lemma ToString_Inl:
  "ToString v = Inl e \<Longrightarrow> e = TypeError"
  "join vs = Inl e \<Longrightarrow> e = TypeError"
  by (induction v and vs rule: ToString_join.induct) (auto split: if_splits sum.splits)

lemma name_check_Inl: "name_check v = Inl e \<Longrightarrow> e = TypeError"
  by (auto simp: name_check_def method_trim_def split: if_splits jsval.splits)

lemma phone_check_Inl: "phone_check v = Inl e \<Longrightarrow> e = TypeError"
  by (auto simp: phone_check_def method_replace_nondigits_def split: if_splits jsval.splits)

lemma email_check_Inl: "email_check v = Inl e \<Longrightarrow> e = TypeError"
  by (auto simp: email_check_def regex_test_def split: if_splits sum.splits dest: ToString_Inl)

lemma validate_Inl: "validate b = Inl e \<Longrightarrow> e = TypeError"
  by (auto simp: validate_def split: sum.splits
      dest: name_check_Inl phone_check_Inl email_check_Inl)

lemma push_if_list:
  "push_if d m4 (push_if c m3 (push_if b m2 (push_if a m1 []))) =
     (if a then [js m1] else []) @ (if b then [js m2] else []) @
     (if c then [js m3] else []) @ (if d then [js m4] else [])"
  by (simp add: push_if_def)

lemma validate_InrD:
  assumes "validate b = Inr errs"
  shows "\<exists>c1 c2 c3.
           name_check (body_prop b ''name'') = Inr c1 \<and>
           phone_check (body_prop b ''phone'') = Inr c2 \<and>
           email_check (body_prop b ''email'') = Inr c3 \<and>
           errs = (if c1 then [js ''name is required''] else []) @
                  (if c2 then [js ''valid phone is required''] else []) @
                  (if c3 then [js ''valid email is required''] else []) @
                  (if service_check (body_prop b ''service'')
                   then [js ''service is required''] else [])"
proof -
  from assms obtain c1 where c1: "name_check (body_prop b ''name'') = Inr c1"
    by (cases "name_check (body_prop b ''name'')") (simp_all add: validate_def)
  from assms c1 obtain c2 where c2: "phone_check (body_prop b ''phone'') = Inr c2"
    by (cases "phone_check (body_prop b ''phone'')") (simp_all add: validate_def)
  from assms c1 c2 obtain c3 where c3: "email_check (body_prop b ''email'') = Inr c3"
    by (cases "email_check (body_prop b ''email'')") (simp_all add: validate_def)
  from assms have "errs = (if c1 then [js ''name is required''] else []) @
                  (if c2 then [js ''valid phone is required''] else []) @
                  (if c3 then [js ''valid email is required''] else []) @
                  (if service_check (body_prop b ''service'')
                   then [js ''service is required''] else [])"
    unfolding validate_def c1 c2 c3 push_if_list by simp
  with c1 c2 c3 show ?thesis by blast
qed

lemma validate_InrI:
  assumes "name_check (body_prop b ''name'') = Inr c1"
    and "phone_check (body_prop b ''phone'') = Inr c2"
    and "email_check (body_prop b ''email'') = Inr c3"
  shows "validate b = Inr ((if c1 then [js ''name is required''] else []) @
                  (if c2 then [js ''valid phone is required''] else []) @
                  (if c3 then [js ''valid email is required''] else []) @
                  (if service_check (body_prop b ''service'')
                   then [js ''service is required''] else []))"
  unfolding validate_def assms push_if_list by simp

lemma example_body_props:
  "body_prop example_body ''name'' = JStr (js ''Jane Doe'')"
  "body_prop example_body ''phone'' = JStr (js ''6124733196'')"
  "body_prop example_body ''email'' = JStr (js ''jane@example.com'')"
  "body_prop example_body ''service'' = JStr (js ''Driveway'')"
  "body_prop example_body ''address'' = JUndefined"
  "body_prop example_body ''zipcode'' = JUndefined"
  "body_prop example_body ''timeline'' = JUndefined"
  "body_prop example_body ''budget'' = JUndefined"
  "body_prop example_body ''message'' = JUndefined"
  by (simp_all add: example_body_def body_prop_def js_def)

lemma name_check_Jane: "name_check (JStr (js ''Jane Doe'')) = Inr False"
  by (simp add: name_check_def method_trim_def trim_def is_space_def js_def)

lemma phone_check_digits: "phone_check (JStr (js ''6124733196'')) = Inr False"
  by (simp add: phone_check_def method_replace_nondigits_def is_digit_def js_def)

lemma email_check_jane: "email_check (JStr (js ''jane@example.com'')) = Inr False"
  by (simp add: email_check_def regex_test_def email_re_def not_space_at_def is_space_def js_def
      matches_eval del: matches.simps(3,5))

lemma service_check_Driveway: "service_check (JStr (js ''Driveway'')) = False"
  by (simp add: service_check_def js_def)

lemma example_body_valid: "validate example_body = Inr []"
  by (simp add: validate_def example_body_props name_check_Jane phone_check_digits
      email_check_jane service_check_Driveway push_if_def)

lemma name_check_Inr_iff: "(\<exists>c. name_check v = Inr c) \<longleftrightarrow> falsy_or_string v"
  by (cases v) (auto simp: name_check_def method_trim_def falsy_or_string_def)

lemma phone_check_Inr_iff: "(\<exists>c. phone_check v = Inr c) \<longleftrightarrow> falsy_or_string v"
  by (cases v) (auto simp: phone_check_def method_replace_nondigits_def falsy_or_string_def)

lemma email_check_Inr_iff:
  "(\<exists>c. email_check v = Inr c) \<longleftrightarrow> \<not> truthy v \<or> stringifiable v"
  by (auto simp: email_check_def regex_test_def stringifiable_def split: sum.splits)

lemma validate_completes_iff: "(\<exists>errs. validate b = Inr errs) \<longleftrightarrow> validation_completes b"
proof
  assume "\<exists>errs. validate b = Inr errs"
  then obtain errs where "validate b = Inr errs" ..
  from validate_InrD [OF this] show "validation_completes b"
    unfolding validation_completes_def
    using name_check_Inr_iff phone_check_Inr_iff email_check_Inr_iff by blast
next
  assume "validation_completes b"
  then obtain c1 c2 c3 where "name_check (body_prop b ''name'') = Inr c1"
    "phone_check (body_prop b ''phone'') = Inr c2" "email_check (body_prop b ''email'') = Inr c3"
    unfolding validation_completes_def
    using name_check_Inr_iff phone_check_Inr_iff email_check_Inr_iff by blast
  from validate_InrI [OF this] show "\<exists>errs. validate b = Inr errs" by blast
qed

lemma validate_throws_iff: "validate b = Inl TypeError \<longleftrightarrow> \<not> validation_completes b"
proof -
  have "validate b = Inl TypeError \<longleftrightarrow> \<not> (\<exists>errs. validate b = Inr errs)"
    using validate_Inl [of b] by (cases "validate b") auto
  then show ?thesis by (simp only: validate_completes_iff)
qed

lemma validate_empty:
  "validate Map.empty =
     Inr [js ''name is required'', js ''valid phone is required'',
          js ''valid email is required'', js ''service is required'']"
  by (simp add: validate_def body_prop_def name_check_def phone_check_def email_check_def
      service_check_def push_if_def)

lemma messages_distinct:
  "distinct [js ''name is required'', js ''valid phone is required'',
             js ''valid email is required'', js ''service is required'']"
  by (simp add: js_def)

lemma error_list_mem:
  assumes "errs = (if c1 then [js ''name is required''] else []) @
                  (if c2 then [js ''valid phone is required''] else []) @
                  (if c3 then [js ''valid email is required''] else []) @
                  (if c4 then [js ''service is required''] else [])"
  shows "js ''name is required'' \<in> set errs \<longleftrightarrow> c1"
    and "js ''valid phone is required'' \<in> set errs \<longleftrightarrow> c2"
    and "js ''valid email is required'' \<in> set errs \<longleftrightarrow> c3"
    and "js ''service is required'' \<in> set errs \<longleftrightarrow> c4"
  using messages_distinct unfolding assms by auto




lemma phone_check_falsy: "\<not> truthy v \<Longrightarrow> phone_check v = Inr True"
  by (simp add: phone_check_def)

lemma phone_check_JStr: "phone_check (JStr s) = Inr (length (filter is_digit s) < 10)"
  by (cases "s = []") (simp_all add: phone_check_def method_replace_nondigits_def)

lemma email_check_falsy: "\<not> truthy v \<Longrightarrow> email_check v = Inr True"
  by (simp add: email_check_def)

lemma spec_email_pattern_nonempty: "spec_email_pattern s \<Longrightarrow> s \<noteq> []"
  by (auto simp: spec_email_pattern_def)

lemma email_check_JStr: "email_check (JStr s) = Inr (\<not> spec_email_pattern s)"
  using spec_email_pattern_nonempty [of s]
  by (auto simp: email_check_def regex_test_def email_re_pattern)


lemma body_prop_Some: "b (js k) = Some v \<Longrightarrow> body_prop b k = v"
  by (simp add: body_prop_def)


lemma validate_phone_mem:
  assumes "validate b = Inr errs"
  shows "js ''valid phone is required'' \<in> set errs \<longleftrightarrow>
           phone_check (body_prop b ''phone'') = Inr True"
proof -
  from validate_InrD [OF assms] obtain c1 c2 c3 where
    c: "phone_check (body_prop b ''phone'') = Inr c2" and
    e: "errs = (if c1 then [js ''name is required''] else []) @
                  (if c2 then [js ''valid phone is required''] else []) @
                  (if c3 then [js ''valid email is required''] else []) @
                  (if service_check (body_prop b ''service'')
                   then [js ''service is required''] else [])"
    by blast
  from error_list_mem(2) [OF e] c show ?thesis by simp
qed

lemma validate_email_mem:
  assumes "validate b = Inr errs"
  shows "js ''valid email is required'' \<in> set errs \<longleftrightarrow>
           email_check (body_prop b ''email'') = Inr True"
proof -
  from validate_InrD [OF assms] obtain c1 c2 c3 where
    c: "email_check (body_prop b ''email'') = Inr c3" and
    e: "errs = (if c1 then [js ''name is required''] else []) @
                  (if c2 then [js ''valid phone is required''] else []) @
                  (if c3 then [js ''valid email is required''] else []) @
                  (if service_check (body_prop b ''service'')
                   then [js ''service is required''] else [])"
    by blast
  from error_list_mem(3) [OF e] c show ?thesis by simp
qed

section \<open>Rejected submissions\<close>

text \<open>
  Claim C2. Whenever the validation block ends with a non-empty error list, the endpoint
  answers with status 400 and the body \<open>{success: false, errors}\<close> holding exactly that
  list, and the effect trace is empty: none of the three senders is entered and no network
  call is made.
\<close>

theorem validation_failure_400:
  assumes "validate b = Inr errs" and "errs \<noteq> []"
  shows "quote w b =
           (\<lparr>code = 400, json = JObj
              [(js ''success'', JBool False), (js ''errors'', JArr (map JStr errs))]\<rparr>, [])"
  using assms by (simp add: quote_def)

theorem validation_failure_400_witness:
  "validate Map.empty =
     Inr [js ''name is required'', js ''valid phone is required'',
          js ''valid email is required'', js ''service is required'']
   \<and> quote world_down Map.empty =
         (\<lparr>code = 400, json = JObj
            [(js ''success'', JBool False),
             (js ''errors'', JArr [JStr (js ''name is required''),
                JStr (js ''valid phone is required''), JStr (js ''valid email is required''),
                JStr (js ''service is required'')])]\<rparr>, [])"
  using validation_failure_400 [OF validate_empty, of world_down] validate_empty by simp

lemma number_phone_body_props:
  "body_prop number_phone_body ''name'' = JStr (js ''Jane Doe'')"
  "body_prop number_phone_body ''phone'' = JNum False 6124733196"
  by (simp_all add: number_phone_body_def example_body_def body_prop_def js_def)


section \<open>The validator\<close>

text \<open>
  Claim C3, as stated, at the body \<open>{"name": "Jane Doe", "phone": 6124733196, "email":
  "jane@example.com", "service": "Driveway"}\<close>: the phone is a non-zero number, so
  \<open>!phone\<close> is false and \<open>phone.replace\<close> is not a function. The validation block
  throws and produces no error list, empty or not.
\<close>

theorem validator_throws_on_number_phone:
  "validate number_phone_body = Inl TypeError"
  by (simp add: validate_def number_phone_body_props name_check_Jane phone_check_def
      method_replace_nondigits_def)

text \<open>
  Claim C3, amended. On every body on which the block runs to its end (name and phone are
  falsy or strings, email is falsy or converts to a string) the validator returns the list
  that holds, in the fixed order name, phone, email, service, exactly one message for each
  rule whose condition is true, and nothing else; the list is empty when no condition is
  true. On every other body it throws a \<open>TypeError\<close>. The validator is a function of the
  body alone and returns no effects.
\<close>

theorem validator_contract:
  "(validation_completes b \<longrightarrow>
      (\<exists>c1 c2 c3.
         name_check (body_prop b ''name'') = Inr c1 \<and>
         phone_check (body_prop b ''phone'') = Inr c2 \<and>
         email_check (body_prop b ''email'') = Inr c3 \<and>
         validate b =
           Inr ((if c1 then [js ''name is required''] else []) @
                (if c2 then [js ''valid phone is required''] else []) @
                (if c3 then [js ''valid email is required''] else []) @
                (if service_check (body_prop b ''service'')
                 then [js ''service is required''] else []))))
   \<and> (\<not> validation_completes b \<longrightarrow> validate b = Inl TypeError)"
proof (intro conjI impI)
  assume "validation_completes b"
  then obtain errs where v: "validate b = Inr errs"
    using validate_completes_iff by blast
  from validate_InrD [OF v] v show "\<exists>c1 c2 c3.
         name_check (body_prop b ''name'') = Inr c1 \<and>
         phone_check (body_prop b ''phone'') = Inr c2 \<and>
         email_check (body_prop b ''email'') = Inr c3 \<and>
         validate b =
           Inr ((if c1 then [js ''name is required''] else []) @
                (if c2 then [js ''valid phone is required''] else []) @
                (if c3 then [js ''valid email is required''] else []) @
                (if service_check (body_prop b ''service'')
                 then [js ''service is required''] else []))"
    by blast
next
  assume "\<not> validation_completes b"
  then show "validate b = Inl TypeError" using validate_throws_iff by blast
qed

lemma example_body_completes: "validation_completes example_body"
  using example_body_valid validate_completes_iff by blast

lemma number_phone_body_not_completes: "\<not> validation_completes number_phone_body"
  by (simp add: validation_completes_def number_phone_body_props falsy_or_string_def)

theorem validator_contract_witness:
  "validation_completes example_body \<and> validate example_body = Inr []
   \<and> \<not> validation_completes number_phone_body
   \<and> validate number_phone_body = Inl TypeError"
proof -
  from validator_contract [of example_body] example_body_completes
  have "\<exists>errs. validate example_body = Inr errs" by blast
  moreover from validator_contract [of number_phone_body] number_phone_body_not_completes
  have "validate number_phone_body = Inl TypeError" by blast
  ultimately show ?thesis
    using example_body_completes number_phone_body_not_completes example_body_valid by simp
qed







lemma digits_555: "filter is_digit (js ''555-1234'') = js ''5551234''"
  by (simp add: is_digit_def js_def)

lemma digits_612: "filter is_digit (js ''(612) 473-3196'') = js ''6124733196''"
  by (simp add: is_digit_def js_def)

lemma matches_a_b_com: "matches email_re (js ''a@b.com'')"
  by (simp add: email_re_def not_space_at_def is_space_def js_def
      matches_eval del: matches.simps(3,5))

lemma matches_a_b: "\<not> matches email_re (js ''a@b'')"
  by (simp add: email_re_def not_space_at_def is_space_def js_def
      matches_eval del: matches.simps(3,5))

lemma matches_a_com: "\<not> matches email_re (js ''a.com'')"
  by (simp add: email_re_def not_space_at_def is_space_def js_def
      matches_eval del: matches.simps(3,5))

lemma not_completes_500:
  assumes "\<not> validation_completes b"
  shows "validate b = Inl TypeError" and "quote w b = (server_error, [])"
proof -
  from assms show v: "validate b = Inl TypeError" using validate_throws_iff by blast
  then show "quote w b = (server_error, [])" by (simp add: quote_def)
qed

lemma number_name_no_phone_body_props:
  "body_prop number_name_no_phone_body ''name'' = JNum False 123"
  "body_prop number_name_no_phone_body ''phone'' = JUndefined"
  by (simp_all add: number_name_no_phone_body_def body_prop_def js_def)

lemma number_name_no_phone_not_completes: "\<not> validation_completes number_name_no_phone_body"
  by (simp add: validation_completes_def number_name_no_phone_body_props falsy_or_string_def)

text \<open>
  Claim C5, as stated, at the body \<open>{"name": 123, "email": "jane@example.com", "service":
  "Driveway"}\<close>: the phone is absent, but \<open>(123).trim\<close> is not a function, so the
  validation block throws at the name before it reaches the phone. The catch block answers
  500 and no error list exists that could include \<open>valid phone is required\<close>.
\<close>

theorem absent_phone_gets_500:
  "body_prop number_name_no_phone_body ''phone'' = JUndefined
   \<and> validate number_name_no_phone_body = Inl TypeError
   \<and> quote world_up number_name_no_phone_body = (server_error, [])"
  using not_completes_500(1) [OF number_name_no_phone_not_completes]
    not_completes_500(2) [OF number_name_no_phone_not_completes, of world_up]
  by (simp add: number_name_no_phone_body_props)

lemma short_phone_body_props:
  "body_prop short_phone_body ''name'' = JStr (js ''Jane Doe'')"
  "body_prop short_phone_body ''phone'' = JStr (js ''555-1234'')"
  "body_prop short_phone_body ''email'' = JStr (js ''jane@example.com'')"
  "body_prop short_phone_body ''service'' = JStr (js ''Driveway'')"
  by (simp_all add: short_phone_body_def example_body_def body_prop_def js_def)

lemma long_phone_body_props:
  "body_prop (example_body(js ''phone'' \<mapsto> JStr (js ''(612) 473-3196''))) ''name'' =
     JStr (js ''Jane Doe'')"
  "body_prop (example_body(js ''phone'' \<mapsto> JStr (js ''(612) 473-3196''))) ''phone'' =
     JStr (js ''(612) 473-3196'')"
  "body_prop (example_body(js ''phone'' \<mapsto> JStr (js ''(612) 473-3196''))) ''email'' =
     JStr (js ''jane@example.com'')"
  "body_prop (example_body(js ''phone'' \<mapsto> JStr (js ''(612) 473-3196''))) ''service'' =
     JStr (js ''Driveway'')"
  by (simp_all add: example_body_def body_prop_def js_def)

lemma short_phone_len: "length (filter is_digit (js ''555-1234'')) = 7"
  by (simp only: digits_555) (simp add: js_def)

lemma long_phone_len: "length (filter is_digit (js ''(612) 473-3196'')) = 10"
  by (simp only: digits_612) (simp add: js_def)

lemma short_phone_body_errors:
  "validate short_phone_body = Inr [js ''valid phone is required'']"
  using short_phone_len
  by (simp add: validate_def short_phone_body_props name_check_Jane phone_check_JStr
      email_check_jane service_check_Driveway push_if_def)

lemma long_phone_body_valid:
  "validate (example_body(js ''phone'' \<mapsto> JStr (js ''(612) 473-3196''))) = Inr []"
  using long_phone_len
  by (simp add: validate_def long_phone_body_props name_check_Jane phone_check_JStr
      email_check_jane service_check_Driveway push_if_def)

text \<open>
  Claim C5, amended. On every submission on which the validation block runs to its end
  (name and phone are each falsy or a string, email is falsy or converts to a string), if
  the phone is absent or otherwise falsy, or is a string with fewer than 10 digits once
  every non-digit character is removed, the validator produces an error list and the list
  includes \<open>valid phone is required\<close>. On every other submission the block throws and
  the endpoint answers 500 with no error list and no sender invoked. The phone
  \<open>555-1234\<close> has 7 digits and the example request with it gets exactly this message;
  \<open>(612) 473-3196\<close> has 10 digits and the example request with it gets none.
\<close>

theorem phone_rule:
  "(validation_completes b \<longrightarrow>
      (\<not> truthy (body_prop b ''phone'')
       \<or> (\<exists>s. body_prop b ''phone'' = JStr s \<and> length (filter is_digit s) < 10)) \<longrightarrow>
      (\<exists>errs. validate b = Inr errs \<and> js ''valid phone is required'' \<in> set errs))
   \<and> (\<not> validation_completes b \<longrightarrow>
        validate b = Inl TypeError \<and> quote w b = (server_error, []))
   \<and> length (filter is_digit (js ''555-1234'')) = 7
   \<and> validate (example_body(js ''phone'' \<mapsto> JStr (js ''555-1234''))) =
        Inr [js ''valid phone is required'']
   \<and> length (filter is_digit (js ''(612) 473-3196'')) = 10
   \<and> validate (example_body(js ''phone'' \<mapsto> JStr (js ''(612) 473-3196''))) = Inr []"
proof (intro conjI impI)
  assume c: "validation_completes b"
    and p: "\<not> truthy (body_prop b ''phone'')
       \<or> (\<exists>s. body_prop b ''phone'' = JStr s \<and> length (filter is_digit s) < 10)"
  from c obtain errs where v: "validate b = Inr errs"
    using validate_completes_iff by blast
  from p have "phone_check (body_prop b ''phone'') = Inr True"
    by (auto simp: phone_check_falsy phone_check_JStr)
  with validate_phone_mem [OF v] have "js ''valid phone is required'' \<in> set errs" by simp
  with v show "\<exists>errs. validate b = Inr errs \<and> js ''valid phone is required'' \<in> set errs"
    by blast
next
  assume n: "\<not> validation_completes b"
  show "validate b = Inl TypeError" by (rule not_completes_500(1) [OF n])
  show "quote w b = (server_error, [])" by (rule not_completes_500(2) [OF n])
next
  show "length (filter is_digit (js ''555-1234'')) = 7" by (rule short_phone_len)
  show "validate (example_body(js ''phone'' \<mapsto> JStr (js ''555-1234''))) =
        Inr [js ''valid phone is required'']"
    using short_phone_body_errors by (simp only: short_phone_body_def)
  show "length (filter is_digit (js ''(612) 473-3196'')) = 10" by (rule long_phone_len)
  show "validate (example_body(js ''phone'' \<mapsto> JStr (js ''(612) 473-3196''))) = Inr []"
    by (rule long_phone_body_valid)
qed

lemma short_phone_body_completes: "validation_completes short_phone_body"
  using short_phone_body_errors validate_completes_iff by blast

theorem phone_rule_witness:
  "validation_completes short_phone_body
   \<and> body_prop short_phone_body ''phone'' = JStr (js ''555-1234'')
   \<and> length (filter is_digit (js ''555-1234'')) < 10
   \<and> validate short_phone_body = Inr [js ''valid phone is required'']
   \<and> js ''valid phone is required'' \<in> set [js ''valid phone is required'']
   \<and> \<not> validation_completes number_name_no_phone_body
   \<and> validate number_name_no_phone_body = Inl TypeError
   \<and> quote world_up number_name_no_phone_body = (server_error, [])"
proof -
  have len: "length (filter is_digit (js ''555-1234'')) < 10"
    using short_phone_len by simp
  note T = phone_rule [of short_phone_body world_up]
  from T short_phone_body_completes short_phone_body_props(2) len
  have "\<exists>errs. validate short_phone_body = Inr errs \<and>
          js ''valid phone is required'' \<in> set errs" by blast
  then have 1: "js ''valid phone is required'' \<in> set [js ''valid phone is required'']"
    by (simp add: short_phone_body_errors)
  from phone_rule [of number_name_no_phone_body world_up] number_name_no_phone_not_completes
  have 2: "validate number_name_no_phone_body = Inl TypeError \<and>
           quote world_up number_name_no_phone_body = (server_error, [])" by blast
  from 1 2 short_phone_body_completes short_phone_body_props(2) len short_phone_body_errors
    number_name_no_phone_not_completes
  show ?thesis by blast
qed

lemma number_phone_no_email_body_props:
  "body_prop number_phone_no_email_body ''name'' = JStr (js ''Jane Doe'')"
  "body_prop number_phone_no_email_body ''phone'' = JNum False 6124733196"
  "body_prop number_phone_no_email_body ''email'' = JUndefined"
  by (simp_all add: number_phone_no_email_body_def body_prop_def js_def)

lemma number_phone_no_email_not_completes:
  "\<not> validation_completes number_phone_no_email_body"
  by (simp add: validation_completes_def number_phone_no_email_body_props falsy_or_string_def)

lemma object_email_body_props:
  "body_prop object_email_body ''name'' = JStr (js ''Jane Doe'')"
  "body_prop object_email_body ''phone'' = JStr (js ''6124733196'')"
  "body_prop object_email_body ''email'' = JObj [(js ''toString'', JStr (js ''a@b.com''))]"
  by (simp_all add: object_email_body_def example_body_def body_prop_def js_def)

lemma object_email_not_completes: "\<not> validation_completes object_email_body"
  by (simp add: validation_completes_def object_email_body_props falsy_or_string_def
      stringifiable_def)

text \<open>
  Claim C6, as stated, at two bodies. In \<open>{"name": "Jane Doe", "phone": 6124733196,
  "service": "Driveway"}\<close> the email is absent, but \<open>phone.replace\<close> is not a function
  and the block throws before it reaches the email. In the example request with
  \<open>"email": {"toString": "a@b.com"}\<close> the email is an object, not an address of the
  shape; \<open>test\<close> converts its argument to a string, the own property \<open>toString\<close> is
  not callable, and the conversion throws. Both requests are answered with 500 and no
  error list exists that could include \<open>valid email is required\<close>.
\<close>

theorem email_without_list:
  "body_prop number_phone_no_email_body ''email'' = JUndefined
   \<and> validate number_phone_no_email_body = Inl TypeError
   \<and> quote world_up number_phone_no_email_body = (server_error, [])
   \<and> body_prop object_email_body ''email'' = JObj [(js ''toString'', JStr (js ''a@b.com''))]
   \<and> validate object_email_body = Inl TypeError
   \<and> quote world_up object_email_body = (server_error, [])"
  using not_completes_500(1) [OF number_phone_no_email_not_completes]
    not_completes_500(2) [OF number_phone_no_email_not_completes, of world_up]
    not_completes_500(1) [OF object_email_not_completes]
    not_completes_500(2) [OF object_email_not_completes, of world_up]
  by (simp add: number_phone_no_email_body_props object_email_body_props)

lemma email_check_ToString:
  assumes "truthy v" and "ToString v = Inr s"
  shows "email_check v = Inr (\<not> spec_email_pattern s)"
  using assms by (simp add: email_check_def regex_test_def email_re_pattern)

lemma email_body_props:
  "body_prop (example_body(js ''email'' \<mapsto> v)) ''name'' = JStr (js ''Jane Doe'')"
  "body_prop (example_body(js ''email'' \<mapsto> v)) ''phone'' = JStr (js ''6124733196'')"
  "body_prop (example_body(js ''email'' \<mapsto> v)) ''email'' = v"
  "body_prop (example_body(js ''email'' \<mapsto> v)) ''service'' = JStr (js ''Driveway'')"
  by (simp_all add: example_body_def body_prop_def js_def)

lemma email_body_validate:
  "validate (example_body(js ''email'' \<mapsto> JStr s)) =
     Inr (if spec_email_pattern s then [] else [js ''valid email is required''])"
  by (simp add: validate_def email_body_props name_check_Jane phone_check_digits
      email_check_JStr service_check_Driveway push_if_def)

lemma pattern_examples:
  "spec_email_pattern (js ''a@b.com'')"
  "\<not> spec_email_pattern (js ''a@b'')"
  "\<not> spec_email_pattern (js ''a.com'')"
  using matches_a_b_com matches_a_b matches_a_com email_re_pattern by blast+

text \<open>
  Claim C6, amended. On every submission on which the validation block runs to its end, if
  the email is absent or otherwise falsy, or its string form is not of the shape: one or
  more characters that are neither white space nor \<open>@\<close>, an \<open>@\<close>, one or more such
  characters, a dot, one or more such characters, the validator produces an error list and
  the list includes \<open>valid email is required\<close>. On every other submission the block
  throws and the endpoint answers 500 with no error list and no sender invoked. The address
  \<open>a@b.com\<close> has the shape and the example request with it gets no message;
  \<open>a@b\<close> and \<open>a.com\<close> do not have it and the example request with either gets
  exactly this message.
\<close>

theorem email_rule:
  "(validation_completes b \<longrightarrow>
      (\<not> truthy (body_prop b ''email'')
       \<or> (\<exists>s. ToString (body_prop b ''email'') = Inr s \<and> \<not> spec_email_pattern s)) \<longrightarrow>
      (\<exists>errs. validate b = Inr errs \<and> js ''valid email is required'' \<in> set errs))
   \<and> (\<not> validation_completes b \<longrightarrow>
        validate b = Inl TypeError \<and> quote w b = (server_error, []))
   \<and> spec_email_pattern (js ''a@b.com'')
   \<and> validate (example_body(js ''email'' \<mapsto> JStr (js ''a@b.com''))) = Inr []
   \<and> \<not> spec_email_pattern (js ''a@b'')
   \<and> validate (example_body(js ''email'' \<mapsto> JStr (js ''a@b''))) =
        Inr [js ''valid email is required'']
   \<and> \<not> spec_email_pattern (js ''a.com'')
   \<and> validate (example_body(js ''email'' \<mapsto> JStr (js ''a.com''))) =
        Inr [js ''valid email is required'']"
proof (intro conjI impI)
  assume c: "validation_completes b"
    and p: "\<not> truthy (body_prop b ''email'')
       \<or> (\<exists>s. ToString (body_prop b ''email'') = Inr s \<and> \<not> spec_email_pattern s)"
  from c obtain errs where v: "validate b = Inr errs"
    using validate_completes_iff by blast
  have "email_check (body_prop b ''email'') = Inr True"
  proof (cases "truthy (body_prop b ''email'')")
    case False
    then show ?thesis by (rule email_check_falsy)
  next
    case True
    with p obtain s where "ToString (body_prop b ''email'') = Inr s" "\<not> spec_email_pattern s"
      by blast
    with email_check_ToString [OF True] show ?thesis by simp
  qed
  with validate_email_mem [OF v] have "js ''valid email is required'' \<in> set errs" by simp
  with v show "\<exists>errs. validate b = Inr errs \<and> js ''valid email is required'' \<in> set errs"
    by blast
next
  assume n: "\<not> validation_completes b"
  show "validate b = Inl TypeError" by (rule not_completes_500(1) [OF n])
  show "quote w b = (server_error, [])" by (rule not_completes_500(2) [OF n])
next
  show "spec_email_pattern (js ''a@b.com'')" by (rule pattern_examples)
  show "\<not> spec_email_pattern (js ''a@b'')" by (rule pattern_examples)
  show "\<not> spec_email_pattern (js ''a.com'')" by (rule pattern_examples)
  show "validate (example_body(js ''email'' \<mapsto> JStr (js ''a@b.com''))) = Inr []"
    by (simp add: email_body_validate pattern_examples)
  show "validate (example_body(js ''email'' \<mapsto> JStr (js ''a@b''))) =
        Inr [js ''valid email is required'']"
    by (simp add: email_body_validate pattern_examples)
  show "validate (example_body(js ''email'' \<mapsto> JStr (js ''a.com''))) =
        Inr [js ''valid email is required'']"
    by (simp add: email_body_validate pattern_examples)
qed

lemma bad_email_body_errors:
  "validate bad_email_body = Inr [js ''valid email is required'']"
  by (simp add: bad_email_body_def email_body_validate pattern_examples)

lemma bad_email_body_completes: "validation_completes bad_email_body"
  using bad_email_body_errors validate_completes_iff by blast

lemma bad_email_body_email:
  "truthy (body_prop bad_email_body ''email'')"
  "ToString (body_prop bad_email_body ''email'') = Inr (js ''a@b'')"
  unfolding bad_email_body_def email_body_props by (simp_all add: js_def)

theorem email_rule_witness:
  "validation_completes bad_email_body
   \<and> ToString (body_prop bad_email_body ''email'') = Inr (js ''a@b'')
   \<and> \<not> spec_email_pattern (js ''a@b'')
   \<and> validate bad_email_body = Inr [js ''valid email is required'']
   \<and> js ''valid email is required'' \<in> set [js ''valid email is required'']
   \<and> \<not> validation_completes object_email_body
   \<and> validate object_email_body = Inl TypeError
   \<and> quote world_up object_email_body = (server_error, [])"
proof -
  from email_rule [of bad_email_body world_up] bad_email_body_completes bad_email_body_email(2)
    pattern_examples(2)
  have "\<exists>errs. validate bad_email_body = Inr errs \<and>
          js ''valid email is required'' \<in> set errs" by blast
  then have 1: "js ''valid email is required'' \<in> set [js ''valid email is required'']"
    by (simp add: bad_email_body_errors)
  from email_rule [of object_email_body world_up] object_email_not_completes
  have 2: "validate object_email_body = Inl TypeError \<and>
           quote world_up object_email_body = (server_error, [])" by blast
  from 1 2 bad_email_body_completes bad_email_body_email(2) pattern_examples(2)
    bad_email_body_errors object_email_not_completes
  show ?thesis by blast
qed

section \<open>Facts about the senders and the handler\<close>

lemma sendNotificationEmail_invocations:
  "filter is_invocation (snd (sendNotificationEmail w d)) = [Invoked Notification]"
  "filter is_fetch (snd (sendNotificationEmail w d)) = []"
  by (simp_all add: sendNotificationEmail_def Let_def split: sum.splits)

lemma sendConfirmationEmail_invocations:
  "filter is_invocation (snd (sendConfirmationEmail w n e s)) = [Invoked Confirmation]"
  "filter is_fetch (snd (sendConfirmationEmail w n e s)) = []"
  by (simp_all add: sendConfirmationEmail_def Let_def split: sum.splits)

lemma pushToCRM_invocations:
  "filter is_invocation (snd (pushToCRM w d)) = [Invoked CRM]"
  by (simp_all add: pushToCRM_def Let_def split: sum.splits)

lemma quote_valid:
  assumes "validate b = Inr []"
  shows "quote w b =
     (case render (log_line (submission_of b (now w))) of
        Inl err \<Rightarrow> server_error
      | Inr line \<Rightarrow>
          accepted (fst (sendNotificationEmail w (submission_of b (now w))))
                   (fst (pushToCRM w (submission_of b (now w))))
                   (fst (sendConfirmationEmail w (body_prop b ''name'') (body_prop b ''email'')
                          (body_prop b ''service''))),
      snd (sendNotificationEmail w (submission_of b (now w))) @
      snd (pushToCRM w (submission_of b (now w))) @
      snd (sendConfirmationEmail w (body_prop b ''name'') (body_prop b ''email'')
             (body_prop b ''service'')))"
proof -
  have sel: "name (submission_of b (now w)) = body_prop b ''name''"
    "email (submission_of b (now w)) = body_prop b ''email''"
    "service (submission_of b (now w)) = body_prop b ''service''"
    by (simp_all add: submission_of_def)
  show ?thesis
    unfolding quote_def assms accepted_def Let_def sel
    by (simp split: prod.splits sum.splits)
qed

lemma name_check_False: "name_check v = Inr False \<Longrightarrow> \<exists>s. v = JStr s \<and> s \<noteq> []"
  by (cases v) (auto simp: name_check_def method_trim_def split: if_splits)

lemma phone_check_False: "phone_check v = Inr False \<Longrightarrow> \<exists>s. v = JStr s \<and> s \<noteq> []"
  by (cases v) (auto simp: phone_check_def method_replace_nondigits_def split: if_splits)

lemma email_check_False: "email_check v = Inr False \<Longrightarrow> truthy v \<and> stringifiable v"
  by (auto simp: email_check_def regex_test_def stringifiable_def split: if_splits sum.splits)

lemma valid_fields:
  assumes "validate b = Inr []"
  shows "\<exists>s. body_prop b ''name'' = JStr s \<and> s \<noteq> []"
    and "\<exists>s. body_prop b ''phone'' = JStr s \<and> s \<noteq> []"
    and "truthy (body_prop b ''email'')" and "stringifiable (body_prop b ''email'')"
    and "truthy (body_prop b ''service'')"
proof -
  from validate_InrD [OF assms] obtain c1 c2 c3 where
    c: "name_check (body_prop b ''name'') = Inr c1"
       "phone_check (body_prop b ''phone'') = Inr c2"
       "email_check (body_prop b ''email'') = Inr c3" and
    e: "[] = (if c1 then [js ''name is required''] else []) @
                  (if c2 then [js ''valid phone is required''] else []) @
                  (if c3 then [js ''valid email is required''] else []) @
                  (if service_check (body_prop b ''service'')
                   then [js ''service is required''] else [])"
    by blast
  from e have f: "\<not> c1" "\<not> c2" "\<not> c3" "\<not> service_check (body_prop b ''service'')"
    by (auto split: if_splits)
  from c f show "\<exists>s. body_prop b ''name'' = JStr s \<and> s \<noteq> []"
    by (simp add: name_check_False)
  from c f show "\<exists>s. body_prop b ''phone'' = JStr s \<and> s \<noteq> []"
    by (simp add: phone_check_False)
  from c f show "truthy (body_prop b ''email'')" "stringifiable (body_prop b ''email'')"
    by (simp_all add: email_check_False)
  from f show "truthy (body_prop b ''service'')" by (simp add: service_check_def)
qed

lemma stringifiable_cases:
  "stringifiable v \<Longrightarrow> \<exists>s. ToString v = Inr s"
  "\<not> stringifiable v \<Longrightarrow> ToString v = Inl TypeError"
  using ToString_Inl(1) [of v] by (auto simp: stringifiable_def split: sum.splits)

lemma render_log_line:
  assumes "validate b = Inr []"
  shows "(\<exists>line. render (log_line (submission_of b ts)) = Inr line) \<longleftrightarrow>
           stringifiable (body_prop b ''service'')"
proof -
  from valid_fields [OF assms] obtain n e where
    "body_prop b ''name'' = JStr n" "ToString (body_prop b ''email'') = Inr e"
    using stringifiable_cases(1) by blast
  then show ?thesis
    by (auto simp: log_line_def submission_of_def stringifiable_def split: sum.splits)
qed

lemma quote_valid_response:
  assumes "validate b = Inr []"
  shows "stringifiable (body_prop b ''service'') \<Longrightarrow>
           fst (quote w b) =
             accepted (fst (sendNotificationEmail w (submission_of b (now w))))
                   (fst (pushToCRM w (submission_of b (now w))))
                   (fst (sendConfirmationEmail w (body_prop b ''name'') (body_prop b ''email'')
                          (body_prop b ''service'')))"
    and "\<not> stringifiable (body_prop b ''service'') \<Longrightarrow> fst (quote w b) = server_error"
  using render_log_line [OF assms, of "now w"]
  by (auto simp: quote_valid [OF assms] split: sum.splits)

lemma quote_valid_trace:
  assumes "validate b = Inr []"
  shows "snd (quote w b) =
      snd (sendNotificationEmail w (submission_of b (now w))) @
      snd (pushToCRM w (submission_of b (now w))) @
      snd (sendConfirmationEmail w (body_prop b ''name'') (body_prop b ''email'')
             (body_prop b ''service''))"
  by (simp add: quote_valid [OF assms])

lemma object_service_body_props:
  "body_prop object_service_body ''name'' = JStr (js ''Jane Doe'')"
  "body_prop object_service_body ''phone'' = JStr (js ''6124733196'')"
  "body_prop object_service_body ''email'' = JStr (js ''jane@example.com'')"
  "body_prop object_service_body ''service'' = JObj [(js ''toString'', JNull)]"
  by (simp_all add: object_service_body_def example_body_def body_prop_def js_def)

lemma object_service_body_valid: "validate object_service_body = Inr []"
  by (simp add: validate_def object_service_body_props name_check_Jane phone_check_digits
      email_check_jane service_check_def push_if_def)

lemma object_service_not_stringifiable:
  "\<not> stringifiable (body_prop object_service_body ''service'')"
  by (simp add: object_service_body_props stringifiable_def)

lemma object_in_array_body_props:
  "body_prop object_in_array_body ''name'' = JStr (js ''Jane Doe'')"
  "body_prop object_in_array_body ''phone'' = JStr (js ''6124733196'')"
  "body_prop object_in_array_body ''email'' = JStr (js ''jane@example.com'')"
  "body_prop object_in_array_body ''service'' =
     JArr [JStr (js ''Patio''), JObj [(js ''toString'', JNum False 1)]]"
  by (simp_all add: object_in_array_body_def example_body_def body_prop_def js_def)

lemma object_in_array_body_valid: "validate object_in_array_body = Inr []"
  by (simp add: validate_def object_in_array_body_props name_check_Jane phone_check_digits
      email_check_jane service_check_def push_if_def)

lemma object_in_array_not_stringifiable:
  "\<not> stringifiable (body_prop object_in_array_body ''service'')"
  by (simp add: object_in_array_body_props stringifiable_def)

section \<open>Accepted submissions\<close>

text \<open>
  Claim C1, as stated, at the body \<open>{"name": "Jane Doe", "phone": "6124733196", "email":
  "jane@example.com", "service": {"toString": null}}\<close>. The service is truthy, so
  validation passes with an empty error list. The object has an own property \<open>toString\<close>
  that is not a function, so converting it to a string throws. Inside the two email senders
  the throw is caught and reported as a failure; in the handler the summary line
  \<open>`... service: ${service}`\<close> throws after the three sends, outside any sender, and the
  catch block answers 500 instead of 200.
\<close>

theorem valid_submission_gets_500:
  "validate object_service_body = Inr []
   \<and> fst (quote world_up object_service_body) = server_error
   \<and> code server_error = 500"
  using quote_valid_response(2) [OF object_service_body_valid object_service_not_stringifiable]
  by (simp add: object_service_body_valid server_error_def)

text \<open>
  Claim C1, amended. For every valid submission and whatever the three senders return, the
  effects of the request are those of the notification sender, then of the CRM forwarder,
  then of the confirmation sender: each of the three is invoked exactly once, in this order.
  When the service value converts to a string (every string, number and boolean does), the
  endpoint answers 200 with \<open>success: true\<close> and the details \<open>email_sent\<close>,
  \<open>crm_pushed\<close>, \<open>confirmation_sent\<close> equal to the \<open>success\<close> of the respective
  sender. When it does not, the endpoint answers 500 after the three sends.
\<close>

theorem senders_are_independent:
  assumes "validate b = Inr []"
  shows
    "snd (quote w b) =
       snd (sendNotificationEmail w (submission_of b (now w))) @
       snd (pushToCRM w (submission_of b (now w))) @
       snd (sendConfirmationEmail w (body_prop b ''name'') (body_prop b ''email'')
              (body_prop b ''service''))
     \<and> filter is_invocation (snd (quote w b)) =
         [Invoked Notification, Invoked CRM, Invoked Confirmation]
     \<and> (stringifiable (body_prop b ''service'') \<longrightarrow>
          fst (quote w b) =
            \<lparr>code = 200, json = JObj
               [(js ''success'', JBool True),
                (js ''message'', JStr (js ''Quote request submitted successfully'')),
                (js ''details'', JObj
                   [(js ''email_sent'',
                     JBool (success (fst (sendNotificationEmail w (submission_of b (now w)))))),
                    (js ''crm_pushed'',
                     JBool (success (fst (pushToCRM w (submission_of b (now w)))))),
                    (js ''confirmation_sent'',
                     JBool (success (fst (sendConfirmationEmail w (body_prop b ''name'')
                        (body_prop b ''email'') (body_prop b ''service'')))))])]\<rparr>)
     \<and> (\<not> stringifiable (body_prop b ''service'') \<longrightarrow> fst (quote w b) = server_error)"
proof (intro conjI impI)
  show t: "snd (quote w b) =
       snd (sendNotificationEmail w (submission_of b (now w))) @
       snd (pushToCRM w (submission_of b (now w))) @
       snd (sendConfirmationEmail w (body_prop b ''name'') (body_prop b ''email'')
              (body_prop b ''service''))"
    by (rule quote_valid_trace [OF assms])
  show "filter is_invocation (snd (quote w b)) =
         [Invoked Notification, Invoked CRM, Invoked Confirmation]"
    unfolding t
    by (simp add: sendNotificationEmail_invocations pushToCRM_invocations
        sendConfirmationEmail_invocations)
next
  assume "stringifiable (body_prop b ''service'')"
  from quote_valid_response(1) [OF assms this, of w]
  show "fst (quote w b) =
            \<lparr>code = 200, json = JObj
               [(js ''success'', JBool True),
                (js ''message'', JStr (js ''Quote request submitted successfully'')),
                (js ''details'', JObj
                   [(js ''email_sent'',
                     JBool (success (fst (sendNotificationEmail w (submission_of b (now w)))))),
                    (js ''crm_pushed'',
                     JBool (success (fst (pushToCRM w (submission_of b (now w)))))),
                    (js ''confirmation_sent'',
                     JBool (success (fst (sendConfirmationEmail w (body_prop b ''name'')
                        (body_prop b ''email'') (body_prop b ''service'')))))])]\<rparr>"
    by (simp only: accepted_def)
next
  assume "\<not> stringifiable (body_prop b ''service'')"
  from quote_valid_response(2) [OF assms this] show "fst (quote w b) = server_error" .
qed


lemma rejected_sends:
  assumes "\<And>m. resend_send w m = Inl x"
  shows "success (fst (sendNotificationEmail w d)) = False"
    and "success (fst (sendConfirmationEmail w n e s)) = False"
  using assms
  by (auto simp: sendNotificationEmail_def sendConfirmationEmail_def Let_def split: sum.splits)

lemma pushToCRM_not_configured:
  assumes "CRM_WEBHOOK_URL (process_env w) = None \<or> CRM_WEBHOOK_URL (process_env w) = Some []"
  shows "pushToCRM w d = (Failed (Text (js ''CRM_WEBHOOK_URL not configured'')), [Invoked CRM])"
  using assms by (auto simp: pushToCRM_def env_val_def)

lemma world_down_env:
  "CRM_WEBHOOK_URL (process_env world_down) = None"
  "resend_send world_down m = Inl (Rejected (js ''provider down''))"
  by (simp_all add: world_down_def)

lemma example_service_stringifiable: "stringifiable (body_prop example_body ''service'')"
  by (simp add: example_body_props stringifiable_def)

theorem senders_are_independent_witness:
  "validate example_body = Inr []
   \<and> stringifiable (body_prop example_body ''service'')
   \<and> filter is_invocation (snd (quote world_down example_body)) =
        [Invoked Notification, Invoked CRM, Invoked Confirmation]
   \<and> fst (quote world_down example_body) =
        \<lparr>code = 200, json = JObj
           [(js ''success'', JBool True),
            (js ''message'', JStr (js ''Quote request submitted successfully'')),
            (js ''details'', JObj
               [(js ''email_sent'', JBool False), (js ''crm_pushed'', JBool False),
                (js ''confirmation_sent'', JBool False)])]\<rparr>
   \<and> validate object_service_body = Inr []
   \<and> \<not> stringifiable (body_prop object_service_body ''service'')
   \<and> fst (quote world_up object_service_body) = server_error"
proof -
  have r: "\<And>m. resend_send world_down m = Inl (Rejected (js ''provider down''))"
    by (simp add: world_down_env)
  have c: "success (fst (pushToCRM world_down (submission_of example_body (now world_down))))
             = False"
    by (simp add: pushToCRM_not_configured world_down_env)
  note T = senders_are_independent [OF example_body_valid, of world_down]
  have "filter is_invocation (snd (quote world_down example_body)) =
        [Invoked Notification, Invoked CRM, Invoked Confirmation]"
    by (rule T [THEN conjunct2, THEN conjunct1])
  moreover have "fst (quote world_down example_body) =
        \<lparr>code = 200, json = JObj
           [(js ''success'', JBool True),
            (js ''message'', JStr (js ''Quote request submitted successfully'')),
            (js ''details'', JObj
               [(js ''email_sent'', JBool False), (js ''crm_pushed'', JBool False),
                (js ''confirmation_sent'', JBool False)])]\<rparr>"
    using T [THEN conjunct2, THEN conjunct2, THEN conjunct1, rule_format,
        OF example_service_stringifiable]
    by (simp only: rejected_sends [of world_down, OF r] c)
  moreover from senders_are_independent [OF object_service_body_valid, of world_up]
    object_service_not_stringifiable
  have "fst (quote world_up object_service_body) = server_error" by blast
  ultimately show ?thesis
    using example_body_valid example_service_stringifiable object_service_body_valid
      object_service_not_stringifiable by blast
qed

section \<open>The CRM forwarder without and with a webhook URL\<close>

text \<open>
  Claim C7, as stated, in a world without \<open>CRM_WEBHOOK_URL\<close> at the body with
  \<open>"service": ["Patio", {"toString": 1}]\<close>: the submission is valid, the array cannot
  be converted to a string because of its second element, and the request ends with 500
  rather than 200.
\<close>

theorem unconfigured_crm_gets_500:
  "validate object_in_array_body = Inr []
   \<and> CRM_WEBHOOK_URL (process_env world_down) = None
   \<and> fst (quote world_down object_in_array_body) = server_error
   \<and> code server_error = 500"
  using quote_valid_response(2) [OF object_in_array_body_valid object_in_array_not_stringifiable]
  by (simp add: object_in_array_body_valid server_error_def world_down_env)

text \<open>
  Claim C7, amended. For every valid submission, when \<open>CRM_WEBHOOK_URL\<close> is unset or
  empty, the CRM forwarder returns at once \<open>{success: false, error: "CRM_WEBHOOK_URL not
  configured"}\<close> and the whole request makes no \<open>fetch\<close> call; when moreover the
  service value converts to a string, the endpoint answers 200 with
  \<open>details.crm_pushed = false\<close>.
\<close>

theorem crm_not_configured:
  assumes "validate b = Inr []"
    and "CRM_WEBHOOK_URL (process_env w) = None \<or> CRM_WEBHOOK_URL (process_env w) = Some []"
  shows
    "pushToCRM w (submission_of b (now w)) =
       (Failed (Text (js ''CRM_WEBHOOK_URL not configured'')), [Invoked CRM])
     \<and> filter is_fetch (snd (quote w b)) = []
     \<and> (stringifiable (body_prop b ''service'') \<longrightarrow>
          fst (quote w b) =
            \<lparr>code = 200, json = JObj
               [(js ''success'', JBool True),
                (js ''message'', JStr (js ''Quote request submitted successfully'')),
                (js ''details'', JObj
                   [(js ''email_sent'',
                     JBool (success (fst (sendNotificationEmail w (submission_of b (now w)))))),
                    (js ''crm_pushed'', JBool False),
                    (js ''confirmation_sent'',
                     JBool (success (fst (sendConfirmationEmail w (body_prop b ''name'')
                        (body_prop b ''email'') (body_prop b ''service'')))))])]\<rparr>)"
proof (intro conjI impI)
  show p: "pushToCRM w (submission_of b (now w)) =
       (Failed (Text (js ''CRM_WEBHOOK_URL not configured'')), [Invoked CRM])"
    by (rule pushToCRM_not_configured [OF assms(2)])
  show "filter is_fetch (snd (quote w b)) = []"
    by (simp add: quote_valid_trace [OF assms(1)] p sendNotificationEmail_invocations
        sendConfirmationEmail_invocations)
  assume "stringifiable (body_prop b ''service'')"
  from quote_valid_response(1) [OF assms(1) this, of w]
  show "fst (quote w b) =
            \<lparr>code = 200, json = JObj
               [(js ''success'', JBool True),
                (js ''message'', JStr (js ''Quote request submitted successfully'')),
                (js ''details'', JObj
                   [(js ''email_sent'',
                     JBool (success (fst (sendNotificationEmail w (submission_of b (now w)))))),
                    (js ''crm_pushed'', JBool False),
                    (js ''confirmation_sent'',
                     JBool (success (fst (sendConfirmationEmail w (body_prop b ''name'')
                        (body_prop b ''email'') (body_prop b ''service'')))))])]\<rparr>"
    by (simp add: accepted_def p)
qed

lemma world_no_crm_env:
  "CRM_WEBHOOK_URL (process_env world_no_crm) = None"
  "resend_send world_no_crm m = Inr (JObj [(js ''data'', JObj [(js ''id'', JStr (js ''m1''))])])"
  by (simp_all add: world_no_crm_def world_up_def)

lemma result_id_m1:
  "result_id (JObj [(js ''data'', JObj [(js ''id'', JStr (js ''m1''))])]) = Inr (JStr (js ''m1''))"
  by (simp add: result_id_def get_def)


lemma render_Inr_iff:
  "(\<exists>s. render ps = Inr s) \<longleftrightarrow> (\<forall>v. Sub v \<in> set ps \<longrightarrow> stringifiable v)"
proof (induction ps)
  case Nil
  show ?case by simp
next
  case (Cons p ps)
  show ?case
  proof (cases p)
    case (Lit s)
    with Cons show ?thesis by (auto split: sum.splits)
  next
    case (Sub v)
    with Cons show ?thesis by (auto simp: stringifiable_def split: sum.splits)
  qed
qed

lemma notification_renders:
  assumes "\<exists>n. name d = JStr n" and "\<exists>p. phone d = JStr p" and "stringifiable (email d)"
    and "stringifiable (service d)"
    and "address d = JUndefined" and "zipcode d = JUndefined" and "timeline d = JUndefined"
    and "budget d = JUndefined" and "message d = JUndefined" and "\<exists>t. timestamp d = JStr t"
  shows "\<exists>h. render (notification_html d) = Inr h" and "\<exists>s. render (notification_subject d) = Inr s"
  using assms unfolding render_Inr_iff
  by (auto simp: notification_html_def notification_subject_def js_or_def stringifiable_def)

lemma confirmation_renders:
  assumes "stringifiable n" and "stringifiable s"
  shows "\<exists>h. render (confirmation_html n s) = Inr h" and "\<exists>s. render confirmation_subject = Inr s"
  using assms unfolding render_Inr_iff
  by (auto simp: confirmation_html_def confirmation_subject_def)

lemma accepted_sends:
  assumes "\<And>m. resend_send w m = Inr r" and "result_id r = Inr i"
  shows "\<exists>h. render (notification_html d) = Inr h \<Longrightarrow>
         \<exists>s. render (notification_subject d) = Inr s \<Longrightarrow>
           success (fst (sendNotificationEmail w d)) = True"
    and "\<exists>h. render (confirmation_html n s) = Inr h \<Longrightarrow>
           success (fst (sendConfirmationEmail w n e s)) = True"
  using assms confirmation_renders(2)
  by (auto simp: sendNotificationEmail_def sendConfirmationEmail_def Let_def confirmation_subject_def split: sum.splits)


lemma example_submission:
  "name (submission_of example_body ts) = JStr (js ''Jane Doe'')"
  "phone (submission_of example_body ts) = JStr (js ''6124733196'')"
  "email (submission_of example_body ts) = JStr (js ''jane@example.com'')"
  "service (submission_of example_body ts) = JStr (js ''Driveway'')"
  "address (submission_of example_body ts) = JUndefined"
  "zipcode (submission_of example_body ts) = JUndefined"
  "timeline (submission_of example_body ts) = JUndefined"
  "budget (submission_of example_body ts) = JUndefined"
  "message (submission_of example_body ts) = JUndefined"
  "timestamp (submission_of example_body ts) = JStr ts"
  by (simp_all add: submission_of_def example_body_props)

lemma example_sends_accepted:
  assumes "\<And>m. resend_send w m = Inr r" and "result_id r = Inr i"
  shows "success (fst (sendNotificationEmail w (submission_of example_body ts))) = True"
    and "success (fst (sendConfirmationEmail w (body_prop example_body ''name'')
            (body_prop example_body ''email'') (body_prop example_body ''service''))) = True"
proof -
  have "\<exists>h. render (notification_html (submission_of example_body ts)) = Inr h"
    and "\<exists>s. render (notification_subject (submission_of example_body ts)) = Inr s"
    by (rule notification_renders; simp add: example_submission stringifiable_def)+
  then show "success (fst (sendNotificationEmail w (submission_of example_body ts))) = True"
    by (rule accepted_sends(1) [OF assms])
  have "\<exists>h. render (confirmation_html (body_prop example_body ''name'')
            (body_prop example_body ''service'')) = Inr h"
    by (rule confirmation_renders; simp add: example_body_props stringifiable_def)
  then show "success (fst (sendConfirmationEmail w (body_prop example_body ''name'')
            (body_prop example_body ''email'') (body_prop example_body ''service''))) = True"
    by (rule accepted_sends(2) [OF assms])
qed

theorem crm_not_configured_witness:
  "validate example_body = Inr []
   \<and> CRM_WEBHOOK_URL (process_env world_no_crm) = None
   \<and> stringifiable (body_prop example_body ''service'')
   \<and> pushToCRM world_no_crm (submission_of example_body (now world_no_crm)) =
       (Failed (Text (js ''CRM_WEBHOOK_URL not configured'')), [Invoked CRM])
   \<and> filter is_fetch (snd (quote world_no_crm example_body)) = []
   \<and> fst (quote world_no_crm example_body) =
        \<lparr>code = 200, json = JObj
           [(js ''success'', JBool True),
            (js ''message'', JStr (js ''Quote request submitted successfully'')),
            (js ''details'', JObj
               [(js ''email_sent'', JBool True), (js ''crm_pushed'', JBool False),
                (js ''confirmation_sent'', JBool True)])]\<rparr>"
proof -
  have e: "CRM_WEBHOOK_URL (process_env world_no_crm) = None \<or>
           CRM_WEBHOOK_URL (process_env world_no_crm) = Some []"
    by (simp add: world_no_crm_env)
  note T = crm_not_configured [OF example_body_valid e]
  note S = example_sends_accepted [of world_no_crm, OF world_no_crm_env(2) result_id_m1]
  have "fst (quote world_no_crm example_body) =
        \<lparr>code = 200, json = JObj
           [(js ''success'', JBool True),
            (js ''message'', JStr (js ''Quote request submitted successfully'')),
            (js ''details'', JObj
               [(js ''email_sent'', JBool True), (js ''crm_pushed'', JBool False),
                (js ''confirmation_sent'', JBool True)])]\<rparr>"
    using T [THEN conjunct2, THEN conjunct2, rule_format, OF example_service_stringifiable]
    by (simp only: S)
  with T [THEN conjunct1] T [THEN conjunct2, THEN conjunct1] example_body_valid
    world_no_crm_env(1) example_service_stringifiable
  show ?thesis by blast
qed

text \<open>
  Claim C8. For every valid submission, when \<open>CRM_WEBHOOK_URL\<close> is set to a non-empty
  \<open>u\<close>, the request makes exactly one \<open>fetch\<close> call: a POST to \<open>u\<close> whose body is
  the flat object with \<open>form_id\<close> (the configured value, or the default when unset or
  empty), \<open>source: "website"\<close>, the submission fields with \<open>zipcode\<close> under the key
  \<open>zip_code\<close> and the optional fields defaulting to the empty string, the timestamp
  as \<open>submitted_at\<close>, and the fixed \<open>source_url\<close>. The headers always hold
  \<open>Content-Type: application/json\<close>, and hold \<open>X-API-Key\<close> exactly when
  \<open>CRM_API_KEY\<close> is set to a non-empty value.
\<close>

theorem crm_request:
  assumes "validate b = Inr []"
    and "CRM_WEBHOOK_URL (process_env w) = Some u" and "u \<noteq> []"
  shows
    "filter is_fetch (snd (quote w b)) =
       [Fetch \<lparr>url = JStr u, http_method = js ''POST'',
          headers =
            (js ''Content-Type'', JStr (js ''application/json'')) #
            (case CRM_API_KEY (process_env w) of
               None \<Rightarrow> []
             | Some k \<Rightarrow> if k = [] then [] else [(js ''X-API-Key'', JStr k)]),
          payload = JObj
            [(js ''form_id'',
              (case CRM_FORM_ID (process_env w) of
                 None \<Rightarrow> JStr (js ''hopkins-concrete-quote'')
               | Some f \<Rightarrow> if f = [] then JStr (js ''hopkins-concrete-quote'') else JStr f)),
             (js ''source'', JStr (js ''website'')),
             (js ''name'', body_prop b ''name''),
             (js ''email'', body_prop b ''email''),
             (js ''phone'', body_prop b ''phone''),
             (js ''zip_code'', js_or (body_prop b ''zipcode'') (JStr [])),
             (js ''service'', body_prop b ''service''),
             (js ''address'', js_or (body_prop b ''address'') (JStr [])),
             (js ''timeline'', js_or (body_prop b ''timeline'') (JStr [])),
             (js ''budget'', js_or (body_prop b ''budget'') (JStr [])),
             (js ''message'', js_or (body_prop b ''message'') (JStr [])),
             (js ''submitted_at'', JStr (now w)),
             (js ''source_url'',
              JStr (js ''https://hopkinsconcretecontractors.com/contact-2/''))]\<rparr>]"
proof -
  have js_empty: "js [] = []" by (simp add: js_def)
  have h: "crm_headers (process_env w) =
            (js ''Content-Type'', JStr (js ''application/json'')) #
            (case CRM_API_KEY (process_env w) of
               None \<Rightarrow> []
             | Some k \<Rightarrow> if k = [] then [] else [(js ''X-API-Key'', JStr k)])"
    by (simp add: crm_headers_def env_val_def split: option.splits)
  have p: "crm_payload (process_env w) (submission_of b (now w)) = JObj
            [(js ''form_id'',
              (case CRM_FORM_ID (process_env w) of
                 None \<Rightarrow> JStr (js ''hopkins-concrete-quote'')
               | Some f \<Rightarrow> if f = [] then JStr (js ''hopkins-concrete-quote'') else JStr f)),
             (js ''source'', JStr (js ''website'')),
             (js ''name'', body_prop b ''name''),
             (js ''email'', body_prop b ''email''),
             (js ''phone'', body_prop b ''phone''),
             (js ''zip_code'', js_or (body_prop b ''zipcode'') (JStr [])),
             (js ''service'', body_prop b ''service''),
             (js ''address'', js_or (body_prop b ''address'') (JStr [])),
             (js ''timeline'', js_or (body_prop b ''timeline'') (JStr [])),
             (js ''budget'', js_or (body_prop b ''budget'') (JStr [])),
             (js ''message'', js_or (body_prop b ''message'') (JStr [])),
             (js ''submitted_at'', JStr (now w)),
             (js ''source_url'',
              JStr (js ''https://hopkinsconcretecontractors.com/contact-2/''))]"
    unfolding crm_payload_def submission_of_def js_empty
    by (simp add: env_val_def js_or_def split: option.splits)
  have f: "filter is_fetch (snd (pushToCRM w (submission_of b (now w)))) =
       [Fetch \<lparr>url = JStr u, http_method = js ''POST'',
          headers = crm_headers (process_env w),
          payload = crm_payload (process_env w) (submission_of b (now w))\<rparr>]"
    using assms(2,3)
    by (simp add: pushToCRM_def env_val_def Let_def split: sum.splits)
  show ?thesis
    unfolding quote_valid_trace [OF assms(1)]
    by (simp add: sendNotificationEmail_invocations sendConfirmationEmail_invocations f h p)
qed


theorem crm_request_witness:
  "validate example_body = Inr []
   \<and> CRM_WEBHOOK_URL (process_env world_up) = Some (js ''https://crm.example/hook'')
   \<and> js ''https://crm.example/hook'' \<noteq> []
   \<and> filter is_fetch (snd (quote world_up example_body)) =
       [Fetch \<lparr>url = JStr (js ''https://crm.example/hook''), http_method = js ''POST'',
          headers =
            [(js ''Content-Type'', JStr (js ''application/json'')),
             (js ''X-API-Key'', JStr (js ''secret''))],
          payload = JObj
            [(js ''form_id'', JStr (js ''hopkins-concrete-quote'')),
             (js ''source'', JStr (js ''website'')),
             (js ''name'', JStr (js ''Jane Doe'')),
             (js ''email'', JStr (js ''jane@example.com'')),
             (js ''phone'', JStr (js ''6124733196'')),
             (js ''zip_code'', JStr []),
             (js ''service'', JStr (js ''Driveway'')),
             (js ''address'', JStr []),
             (js ''timeline'', JStr []),
             (js ''budget'', JStr []),
             (js ''message'', JStr []),
             (js ''submitted_at'', JStr (js ''2024-05-01T12:00:00.000Z'')),
             (js ''source_url'',
              JStr (js ''https://hopkinsconcretecontractors.com/contact-2/''))]\<rparr>]"
proof -
  have u: "CRM_WEBHOOK_URL (process_env world_up) = Some (js ''https://crm.example/hook'')"
    and k: "CRM_API_KEY (process_env world_up) = Some (js ''secret'')"
    and f: "CRM_FORM_ID (process_env world_up) = None"
    and n: "now world_up = js ''2024-05-01T12:00:00.000Z''"
    by (simp_all add: world_up_def)
  have ne: "js ''https://crm.example/hook'' \<noteq> []" "js ''secret'' \<noteq> []"
    by (simp_all add: js_def)
  from crm_request [OF example_body_valid u ne(1)] u ne example_body_valid
  show ?thesis
    by (simp add: k f n example_body_props js_or_def)
qed

section \<open>Optional fields\<close>








































end
